theory Spec2Isabelle
  imports Main
begin

unbundle bit_operations_syntax

section \<open>The SMS store (src/src/smsdb.c)\<close>

subsection \<open>Tables\<close>

text \<open>
  The store is one SQLite database with four tables. Each table is a list of rows in
  insertion order; \<open>outgoing_ref\<close>, whose primary key is its only lookup column, is a map.

  \<^item> \<open>incoming (key, seqorder, expiration, message)\<close>, primary key \<open>(key, seqorder)\<close>;
  \<^item> \<open>outgoing_ref (key, refid)\<close>, primary key \<open>key\<close>;
  \<^item> \<open>outgoing_msg (uid AUTOINCREMENT, dev, dst, cnt, expiration, srr)\<close>;
  \<^item> \<open>outgoing_part (key, msg, status)\<close>, primary key \<open>key\<close>, with SQLite's implicit rowid.

  C \<open>int\<close> values and SQLite integers are \<open>int\<close>; a timestamp is a number of seconds; a
  nullable column is an \<open>option\<close>. A C string is the list of its characters before the
  terminating NUL.
\<close>

record incoming_row =
  in_key :: string
  in_seqorder :: int
  in_expiration :: int
  in_message :: "string option"

record outgoing_msg_row =
  m_uid :: int
  m_dev :: string
  m_dst :: string
  m_cnt :: int
  m_expiration :: int
  m_srr :: int

record outgoing_part_row =
  p_rowid :: int
  p_key :: string
  p_msg :: int
  p_status :: "int option"

record smsdb =
  incoming :: "incoming_row list"
  outgoing_ref :: "string \<rightharpoonup> int"
  outgoing_msg :: "outgoing_msg_row list"
  outgoing_msg_seq :: int
  outgoing_part :: "outgoing_part_row list"

definition empty_smsdb :: smsdb where
  "empty_smsdb = \<lparr>incoming = [], outgoing_ref = Map.empty, outgoing_msg = [],
     outgoing_msg_seq = 0, outgoing_part = []\<rparr>"

subsection \<open>The engine as the code sees it\<close>

text \<open>
  Every \<open>sqlite3_bind_*\<close> and \<open>sqlite3_step\<close> call of the source is a place where the
  engine may report an error. A call site is named by its prepared statement and, for a
  bind, the parameter index. The environment of one API call says which sites fail, what
  \<open>CURRENT_TIMESTAMP\<close> is, what \<open>CONF_GLOBAL(csms_ttl)\<close> is, whether \<open>ast_str_set\<close> fails to
  build the key, and which value \<open>sqlite3_column_int\<close> yields on a statement that has no
  current row (SQLite leaves it undefined; its implementation gives 0). \<open>dst_max_len\<close> is
  the constant \<open>SMSDB_DST_MAX_LEN\<close> of smsdb.h.
  For the two statements stepped in a \<open>while\<close> loop, a failing step is the first one.
  \<open>BEGIN TRANSACTION\<close> and \<open>COMMIT\<close> are taken to succeed.
\<close>

datatype stmt =
  Get_full_message | Put_message | Clear_messages | Get_cnt
  | Ins_outgoingref | Set_outgoingref | Get_outgoingref
  | Put_outgoingmsg | Put_outgoingpart | Del_outgoingmsg | Del_outgoingpart
  | Get_outgoingmsg | Set_outgoingpart | Get_outgoingpart
  | Cnt_outgoingpart | Cnt_all_outgoingpart | Get_dst | Get_all_status | Get_expired

datatype sqlite_call = Bind stmt nat | Step stmt

record sqlite_env =
  fails :: "sqlite_call \<Rightarrow> bool"
  now :: int
  csms_ttl :: int
  key_fails :: bool
  norow_int :: int
  dst_max_len :: nat

definition no_faults :: "sqlite_env \<Rightarrow> bool" where
  "no_faults E = (\<not> key_fails E \<and> (\<forall>c. \<not> fails E c))"

definition ok_env :: "int \<Rightarrow> sqlite_env" where
  "ok_env t = \<lparr>fails = (\<lambda>c. False), now = t, csms_ttl = 600, key_fails = False,
     norow_int = 0, dst_max_len = 256\<rparr>"

text \<open>\<open>sqlite3_column_int\<close> reads a 64-bit integer into a C \<open>int\<close>: the low 32 bits, signed.\<close>

definition sqlite3_column_int :: "int \<Rightarrow> int" where
  "sqlite3_column_int v = signed_take_bit 31 v"

subsection \<open>Keys\<close>

text \<open>
  \<open>ast_str_set(&fullkey, DBKEY_MAX_LEN, fmt, ...)\<close> formats into a buffer that grows to at
  most \<open>DBKEY_MAX_LEN = 256\<close> bytes, terminator included; a longer key is cut.
\<close>

fun dec_digits :: "nat \<Rightarrow> string" where
  "dec_digits n = (if n < 10 then [''0123456789'' ! n]
     else dec_digits (n div 10) @ [''0123456789'' ! (n mod 10)])"

declare dec_digits.simps [simp del]

definition fmt_d :: "int \<Rightarrow> string" where
  "fmt_d i = (if i < 0 then CHR ''-'' # dec_digits (nat (- i)) else dec_digits (nat i))"

definition DBKEY_MAX_LEN :: nat where
  "DBKEY_MAX_LEN = 256"

definition ast_str_set :: "nat \<Rightarrow> string \<Rightarrow> string" where
  "ast_str_set max_len s = take (max_len - 1) s"

text \<open>The format \<open>"%s/%s/%d/%d"\<close> of \<open>smsdb_put\<close>.\<close>

definition fullkey4 :: "string \<Rightarrow> string \<Rightarrow> int \<Rightarrow> int \<Rightarrow> string" where
  "fullkey4 ident addr ref parts =
     ast_str_set DBKEY_MAX_LEN (ident @ ''/'' @ addr @ ''/'' @ fmt_d ref @ ''/'' @ fmt_d parts)"

text \<open>The format \<open>"%s/%s/%d"\<close> of \<open>smsdb_outgoing_part_put\<close> and \<open>smsdb_outgoing_part_status\<close>.\<close>

definition fullkey3 :: "string \<Rightarrow> string \<Rightarrow> int \<Rightarrow> string" where
  "fullkey3 ident addr mr = ast_str_set DBKEY_MAX_LEN (ident @ ''/'' @ addr @ ''/'' @ fmt_d mr)"

text \<open>The format \<open>"%s/%s"\<close> of \<open>smsdb_get_refid\<close>.\<close>

definition fullkey2 :: "string \<Rightarrow> string \<Rightarrow> string" where
  "fullkey2 ident addr = ast_str_set DBKEY_MAX_LEN (ident @ ''/'' @ addr)"

subsection \<open>The prepared statements on \<open>incoming\<close>\<close>

text \<open>\<open>put_message\<close>: INSERT OR REPLACE INTO incoming, expiring \<open>ttl\<close> seconds from now.\<close>

definition sql_put_message :: "string \<Rightarrow> int \<Rightarrow> int \<Rightarrow> string \<Rightarrow> smsdb \<Rightarrow> smsdb" where
  "sql_put_message k ord exp m db =
     db\<lparr>incoming := filter (\<lambda>r. \<not> (in_key r = k \<and> in_seqorder r = ord)) (incoming db)
        @ [\<lparr>in_key = k, in_seqorder = ord, in_expiration = exp, in_message = Some m\<rparr>]\<rparr>"

text \<open>\<open>get_cnt\<close>: SELECT COUNT(seqorder) FROM incoming WHERE key = ?\<close>

definition sql_get_cnt :: "string \<Rightarrow> smsdb \<Rightarrow> int" where
  "sql_get_cnt k db = int (length (filter (\<lambda>r. in_key r = k) (incoming db)))"

text \<open>\<open>get_full_message\<close>: SELECT message FROM incoming WHERE key = ? ORDER BY seqorder\<close>

definition sql_get_full_message :: "string \<Rightarrow> smsdb \<Rightarrow> string option list" where
  "sql_get_full_message k db =
     map in_message (sort_key in_seqorder (filter (\<lambda>r. in_key r = k) (incoming db)))"

text \<open>\<open>clear_messages\<close>: DELETE FROM incoming WHERE key = ?\<close>

definition sql_clear_messages :: "string \<Rightarrow> smsdb \<Rightarrow> smsdb" where
  "sql_clear_messages k db = db\<lparr>incoming := filter (\<lambda>r. in_key r \<noteq> k) (incoming db)\<rparr>"

subsection \<open>\<open>smsdb_put\<close>\<close>

text \<open>
  The loop over the rows of \<open>get_full_message\<close>: each part is appended to \<open>out\<close> with
  \<open>stpncpy\<close>; a NULL column value sets \<open>res = -1\<close> and leaves the loop.
\<close>

fun copy_parts :: "string option list \<Rightarrow> int \<Rightarrow> string \<Rightarrow> int \<times> string" where
  "copy_parts [] res out = (res, out)"
| "copy_parts (None # ps) res out = (-1, out)"
| "copy_parts (Some part # ps) res out = copy_parts ps res (out @ part)"

text \<open>
  The result is \<open>(res, out, db)\<close>: the returned \<open>int\<close>, the string written to \<open>out\<close> (\<open>None\<close>
  when \<open>out\<close> is not touched) and the store afterwards.
\<close>

definition smsdb_put ::
  "sqlite_env \<Rightarrow> string \<Rightarrow> string \<Rightarrow> int \<Rightarrow> int \<Rightarrow> int \<Rightarrow> string \<Rightarrow> smsdb
     \<Rightarrow> int \<times> string option \<times> smsdb" where
  "smsdb_put E ident addr ref parts ord msg db =
     (let res = (0::int); ttl = csms_ttl E; fullkey = fullkey4 ident addr ref parts in
      if key_fails E then (-1, None, db)
      else
        let (res, db) =
              (if fails E (Bind Put_message 1) then (-1, db)
               else if fails E (Bind Put_message 2) then (-1, db)
               else if fails E (Bind Put_message 3) then (-1, db)
               else if fails E (Bind Put_message 4) then (-1, db)
               else if fails E (Step Put_message) then (-1, db)
               else (res, sql_put_message fullkey ord (now E + ttl) msg db));
            res =
              (if fails E (Bind Get_cnt 1) then norow_int E
               else if fails E (Step Get_cnt) then norow_int E
               else sqlite3_column_int (sql_get_cnt fullkey db))
        in
          if res > 0 \<and> ord = parts then
            let (res, out) =
                  (if fails E (Bind Get_full_message 1) then (-1, [])
                   else if fails E (Step Get_full_message) then (res, [])
                   else copy_parts (sql_get_full_message fullkey db) res []);
                (res, db) =
                  (if res \<ge> 0 then
                     (if fails E (Bind Clear_messages 1) then (-1, db)
                      else if fails E (Step Clear_messages) then (res, db)
                      else (res, sql_clear_messages fullkey db))
                   else (res, db))
            in (res, Some out, db)
          else (res, None, db))"

subsection \<open>\<open>smsdb_get_refid\<close>\<close>

text \<open>\<open>get_outgoingref\<close>: SELECT refid FROM outgoing_ref WHERE key = ?\<close>

definition sql_get_outgoingref :: "string \<Rightarrow> smsdb \<Rightarrow> int option" where
  "sql_get_outgoingref k db = outgoing_ref db k"

text \<open>
  \<open>ins_outgoingref\<close>: INSERT INTO outgoing_ref (refid, key) VALUES (?, ?). The step fails
  on a key already present (primary key).
\<close>

definition sql_ins_outgoingref :: "int \<Rightarrow> string \<Rightarrow> smsdb \<Rightarrow> smsdb option" where
  "sql_ins_outgoingref v k db =
     (case outgoing_ref db k of
        None \<Rightarrow> Some (db\<lparr>outgoing_ref := (outgoing_ref db)(k \<mapsto> v)\<rparr>)
      | Some _ \<Rightarrow> None)"

text \<open>\<open>set_outgoingref\<close>: UPDATE outgoing_ref SET refid = ? WHERE key = ?\<close>

definition sql_set_outgoingref :: "int \<Rightarrow> string \<Rightarrow> smsdb \<Rightarrow> smsdb" where
  "sql_set_outgoingref v k db =
     (case outgoing_ref db k of
        None \<Rightarrow> db
      | Some _ \<Rightarrow> db\<lparr>outgoing_ref := (outgoing_ref db)(k \<mapsto> v)\<rparr>)"

text \<open>\<open>++res\<close> on a C \<open>int\<close>, wrapping at 32 bits.\<close>

definition int_incr :: "int \<Rightarrow> int" where
  "int_incr res = signed_take_bit 31 (res + 1)"

definition smsdb_get_refid :: "sqlite_env \<Rightarrow> string \<Rightarrow> string \<Rightarrow> smsdb \<Rightarrow> int \<times> smsdb" where
  "smsdb_get_refid E ident addr db =
     (let fullkey = fullkey2 ident addr in
      if key_fails E then (-1, db)
      else
        let (res, use_insert) =
              (if fails E (Bind Get_outgoingref 1) then (-1, False)
               else if fails E (Step Get_outgoingref) then (255, True)
               else (case sql_get_outgoingref fullkey db of
                       None \<Rightarrow> (255, True)
                     | Some v \<Rightarrow> (sqlite3_column_int v, False)))
        in
          if res \<ge> 0 then
            let res = int_incr res;
                res = (if res \<ge> 256 then 0 else res);
                outgoingref = (if use_insert then Ins_outgoingref else Set_outgoingref)
            in
              if fails E (Bind outgoingref 1) then (-1, db)
              else if fails E (Bind outgoingref 2) then (-1, db)
              else if fails E (Step outgoingref) then (-1, db)
              else if use_insert then
                (case sql_ins_outgoingref res fullkey db of
                   None \<Rightarrow> (-1, db)
                 | Some db' \<Rightarrow> (res, db'))
              else (res, sql_set_outgoingref res fullkey db)
          else (res, db))"

text \<open>Successive calls for one pair, each in its own environment, oldest first.\<close>

fun refid_calls :: "sqlite_env list \<Rightarrow> string \<Rightarrow> string \<Rightarrow> smsdb \<Rightarrow> int list \<times> smsdb" where
  "refid_calls [] ident addr db = ([], db)"
| "refid_calls (E # Es) ident addr db =
     (let (r, db1) = smsdb_get_refid E ident addr db;
          (rs, db2) = refid_calls Es ident addr db1
      in (r # rs, db2))"

text \<open>The reference stored for a key, an absent row read as 255.\<close>

definition prev_ref :: "smsdb \<Rightarrow> string \<Rightarrow> int" where
  "prev_ref db k = (case outgoing_ref db k of None \<Rightarrow> 255 | Some v \<Rightarrow> v)"

subsection \<open>The prepared statements on \<open>outgoing_msg\<close> and \<open>outgoing_part\<close>\<close>

text \<open>
  \<open>put_outgoingmsg\<close>: INSERT INTO outgoing_msg (dev, dst, cnt, expiration, srr). The
  AUTOINCREMENT uid is one more than the largest uid the table ever held.
\<close>

definition next_uid :: "smsdb \<Rightarrow> int" where
  "next_uid db = fold max (map m_uid (outgoing_msg db)) (outgoing_msg_seq db) + 1"

definition sql_put_outgoingmsg :: "string \<Rightarrow> string \<Rightarrow> int \<Rightarrow> int \<Rightarrow> int \<Rightarrow> smsdb \<Rightarrow> smsdb" where
  "sql_put_outgoingmsg d a c exp s db =
     db\<lparr>outgoing_msg := outgoing_msg db
          @ [\<lparr>m_uid = next_uid db, m_dev = d, m_dst = a, m_cnt = c, m_expiration = exp, m_srr = s\<rparr>],
        outgoing_msg_seq := next_uid db\<rparr>"

text \<open>
  \<open>put_outgoingpart\<close>: INSERT INTO outgoing_part (key, msg, status) VALUES (?, ?, NULL).
  The step fails on a key already present; the new rowid is one more than the largest.
\<close>

definition next_rowid :: "smsdb \<Rightarrow> int" where
  "next_rowid db = fold max (map p_rowid (outgoing_part db)) 0 + 1"

definition sql_put_outgoingpart :: "string \<Rightarrow> int \<Rightarrow> smsdb \<Rightarrow> smsdb option" where
  "sql_put_outgoingpart k u db =
     (if k \<in> set (map p_key (outgoing_part db)) then None
      else Some (db\<lparr>outgoing_part := outgoing_part db
             @ [\<lparr>p_rowid = next_rowid db, p_key = k, p_msg = u, p_status = None\<rparr>]\<rparr>))"

text \<open>\<open>del_outgoingmsg\<close>: DELETE FROM outgoing_msg WHERE uid = ?\<close>

definition sql_del_outgoingmsg :: "int \<Rightarrow> smsdb \<Rightarrow> smsdb" where
  "sql_del_outgoingmsg u db = db\<lparr>outgoing_msg := filter (\<lambda>m. m_uid m \<noteq> u) (outgoing_msg db)\<rparr>"

text \<open>\<open>del_outgoingpart\<close>: DELETE FROM outgoing_part WHERE msg = ?\<close>

definition sql_del_outgoingpart :: "int \<Rightarrow> smsdb \<Rightarrow> smsdb" where
  "sql_del_outgoingpart u db = db\<lparr>outgoing_part := filter (\<lambda>p. p_msg p \<noteq> u) (outgoing_part db)\<rparr>"

text \<open>\<open>get_outgoingmsg\<close>: SELECT dev, dst, srr FROM outgoing_msg WHERE uid = ?\<close>

definition sql_get_outgoingmsg :: "int \<Rightarrow> smsdb \<Rightarrow> (string \<times> string \<times> int) option" where
  "sql_get_outgoingmsg u db =
     map_option (\<lambda>m. (m_dev m, m_dst m, m_srr m)) (find (\<lambda>m. m_uid m = u) (outgoing_msg db))"

text \<open>\<open>set_outgoingpart\<close>: UPDATE outgoing_part SET status = ? WHERE rowid = ?\<close>

definition sql_set_outgoingpart :: "int \<Rightarrow> int \<Rightarrow> smsdb \<Rightarrow> smsdb" where
  "sql_set_outgoingpart st rid db =
     db\<lparr>outgoing_part :=
          map (\<lambda>p. if p_rowid p = rid then p\<lparr>p_status := Some st\<rparr> else p) (outgoing_part db)\<rparr>"

text \<open>\<open>get_outgoingpart\<close>: SELECT rowid, msg FROM outgoing_part WHERE key = ?\<close>

definition sql_get_outgoingpart :: "string \<Rightarrow> smsdb \<Rightarrow> (int \<times> int) option" where
  "sql_get_outgoingpart k db =
     map_option (\<lambda>p. (p_rowid p, p_msg p)) (find (\<lambda>p. p_key p = k) (outgoing_part db))"

text \<open>
  The condition \<open>p.status & 64 != 0 OR p.status & 32 = 0\<close> of \<open>cnt_outgoingpart\<close>; in SQL \<open>&\<close>
  binds tighter than the comparisons, and a NULL status makes the condition NULL, which
  selects nothing.
\<close>

definition status_final :: "int option \<Rightarrow> bool" where
  "status_final s = (case s of None \<Rightarrow> False | Some v \<Rightarrow> v AND 64 \<noteq> 0 \<or> v AND 32 = 0)"

text \<open>
  \<open>cnt_outgoingpart\<close>: SELECT m.cnt, (SELECT COUNT(p.rowid) FROM outgoing_part p WHERE
  p.msg = m.rowid AND (p.status & 64 != 0 OR p.status & 32 = 0)) FROM outgoing_msg m WHERE
  m.rowid = ?
\<close>

definition sql_cnt_outgoingpart :: "int \<Rightarrow> smsdb \<Rightarrow> (int \<times> int) option" where
  "sql_cnt_outgoingpart u db =
     map_option
       (\<lambda>m. (m_cnt m,
              int (length (filter (\<lambda>p. p_msg p = m_uid m \<and> status_final (p_status p))
                             (outgoing_part db)))))
       (find (\<lambda>m. m_uid m = u) (outgoing_msg db))"

text \<open>
  \<open>cnt_all_outgoingpart\<close>: SELECT m.cnt, (SELECT COUNT(p.rowid) FROM outgoing_part p WHERE
  p.msg = m.uid) FROM outgoing_msg m WHERE m.uid = ?
\<close>

definition sql_cnt_all_outgoingpart :: "int \<Rightarrow> smsdb \<Rightarrow> (int \<times> int) option" where
  "sql_cnt_all_outgoingpart u db =
     map_option
       (\<lambda>m. (m_cnt m, int (length (filter (\<lambda>p. p_msg p = m_uid m) (outgoing_part db)))))
       (find (\<lambda>m. m_uid m = u) (outgoing_msg db))"

text \<open>\<open>get_dst\<close>: SELECT dst FROM outgoing_msg WHERE uid = ?\<close>

definition sql_get_dst :: "int \<Rightarrow> smsdb \<Rightarrow> string option" where
  "sql_get_dst u db = map_option m_dst (find (\<lambda>m. m_uid m = u) (outgoing_msg db))"

text \<open>\<open>get_all_status\<close>: SELECT status FROM outgoing_part WHERE msg = ? ORDER BY rowid\<close>

definition sql_get_all_status :: "int \<Rightarrow> smsdb \<Rightarrow> int option list" where
  "sql_get_all_status u db =
     map p_status (sort_key p_rowid (filter (\<lambda>p. p_msg p = u) (outgoing_part db)))"

text \<open>
  \<open>get_expired\<close>: SELECT uid, dst FROM outgoing_msg WHERE expiration < CURRENT_TIMESTAMP
  LIMIT 1
\<close>

definition sql_get_expired :: "int \<Rightarrow> smsdb \<Rightarrow> (int \<times> string) option" where
  "sql_get_expired t db =
     map_option (\<lambda>m. (m_uid m, m_dst m)) (find (\<lambda>m. m_expiration m < t) (outgoing_msg db))"

text \<open>\<open>sqlite3_column_int\<close> on a nullable column: NULL reads as 0.\<close>

definition status_int :: "int option \<Rightarrow> int" where
  "status_int s = (case s of None \<Rightarrow> 0 | Some v \<Rightarrow> sqlite3_column_int v)"

subsection \<open>\<open>smsdb_outgoing_add\<close>\<close>

definition smsdb_outgoing_add ::
  "sqlite_env \<Rightarrow> string \<Rightarrow> string \<Rightarrow> int \<Rightarrow> int \<Rightarrow> int \<Rightarrow> smsdb \<Rightarrow> int \<times> smsdb" where
  "smsdb_outgoing_add E ident addr cnt ttl srr db =
     (if fails E (Bind Put_outgoingmsg 1) then (-1, db)
      else if fails E (Bind Put_outgoingmsg 2) then (-1, db)
      else if fails E (Bind Put_outgoingmsg 3) then (-1, db)
      else if fails E (Bind Put_outgoingmsg 4) then (-1, db)
      else if fails E (Bind Put_outgoingmsg 5) then (-1, db)
      else if fails E (Step Put_outgoingmsg) then (-1, db)
      else (sqlite3_column_int (next_uid db),
            sql_put_outgoingmsg ident addr cnt (now E + ttl) srr db))"

subsection \<open>\<open>smsdb_outgoing_clear_nolock\<close> and \<open>smsdb_outgoing_clear\<close>\<close>

definition smsdb_outgoing_clear_nolock :: "sqlite_env \<Rightarrow> int \<Rightarrow> smsdb \<Rightarrow> int \<times> smsdb" where
  "smsdb_outgoing_clear_nolock E uid db =
     (let res = (0::int);
          (res, db) =
            (if fails E (Bind Del_outgoingmsg 1) then (-1, db)
             else if fails E (Step Del_outgoingmsg) then (-1, db)
             else (res, sql_del_outgoingmsg uid db));
          (res, db) =
            (if fails E (Bind Del_outgoingpart 1) then (-1, db)
             else if fails E (Step Del_outgoingpart) then (-1, db)
             else (res, sql_del_outgoingpart uid db))
      in (res, db))"

text \<open>
  The result of the functions below is \<open>(res, dst, db)\<close>, with \<open>dst = None\<close> when the
  caller's \<open>dst\<close> buffer is not written.
\<close>

definition smsdb_outgoing_clear :: "sqlite_env \<Rightarrow> int \<Rightarrow> smsdb \<Rightarrow> int \<times> string option \<times> smsdb" where
  "smsdb_outgoing_clear E uid db =
     (let res = (0::int);
          (res, dst) =
            (if fails E (Bind Get_dst 1) then (-1, None)
             else if fails E (Step Get_dst) then (-1, None)
             else (case sql_get_dst uid db of
                     None \<Rightarrow> (-1, None)
                   | Some d \<Rightarrow> (res, Some (ast_str_set (dst_max_len E) d))))
      in
        if res \<ge> 0 then
          (let (r, db) = smsdb_outgoing_clear_nolock E uid db
           in (if r < 0 then -1 else res, dst, db))
        else (res, dst, db))"

subsection \<open>\<open>smsdb_outgoing_part_put\<close>\<close>

definition smsdb_outgoing_part_put ::
  "sqlite_env \<Rightarrow> int \<Rightarrow> int \<Rightarrow> smsdb \<Rightarrow> int \<times> string option \<times> smsdb" where
  "smsdb_outgoing_part_put E uid refid db =
     (let res = (0::int); srr = (0::int);
          (res, srr, fullkey) =
            (if fails E (Bind Get_outgoingmsg 1) then (-1, srr, [])
             else if fails E (Step Get_outgoingmsg) then (-2, srr, [])
             else (case sql_get_outgoingmsg uid db of
                     None \<Rightarrow> (-2, srr, [])
                   | Some (dev, dst, s) \<Rightarrow>
                       (if key_fails E then (-3, sqlite3_column_int s, [])
                        else (res, sqlite3_column_int s, fullkey3 dev dst refid))));
          (res, db) =
            (if res \<ge> 0 then
               (if fails E (Bind Put_outgoingpart 1) then (-1, db)
                else if fails E (Bind Put_outgoingpart 2) then (-1, db)
                else if fails E (Step Put_outgoingpart) then (-1, db)
                else (case sql_put_outgoingpart fullkey uid db of
                        None \<Rightarrow> (-1, db)
                      | Some db' \<Rightarrow> (res, db')))
             else (res, db));
          res = (if srr = 0 then -2 else res);
          res =
            (if res \<ge> 0 then
               (if fails E (Bind Cnt_all_outgoingpart 1) then -1
                else if fails E (Step Cnt_all_outgoingpart) then -1
                else (case sql_cnt_all_outgoingpart uid db of
                        None \<Rightarrow> -1
                      | Some (c0, c1) \<Rightarrow>
                          (let cur = sqlite3_column_int c0; cnt = sqlite3_column_int c1
                           in if cur \<noteq> cnt then -2 else res)))
             else res);
          (res, dst) =
            (if res \<ge> 0 then
               (if fails E (Bind Get_dst 1) then (-1, None)
                else if fails E (Step Get_dst) then (-1, None)
                else (case sql_get_dst uid db of
                        None \<Rightarrow> (-1, None)
                      | Some d \<Rightarrow> (res, Some (ast_str_set (dst_max_len E) d))))
             else (res, None))
      in
        if res \<ge> 0 then
          (let (r, db) = smsdb_outgoing_clear_nolock E uid db
           in (if r < 0 then -1 else res, dst, db))
        else (res, dst, db))"

subsection \<open>\<open>smsdb_outgoing_part_status\<close>\<close>

text \<open>
  The result is \<open>(res, status_all, db)\<close>, with \<open>status_all = None\<close> when the caller's array is
  not written. \<open>partid\<close> and \<open>uid\<close> are uninitialised, and never read, when the part is not
  found; they are 0 here.
\<close>

definition smsdb_outgoing_part_status ::
  "sqlite_env \<Rightarrow> string \<Rightarrow> string \<Rightarrow> int \<Rightarrow> int \<Rightarrow> smsdb \<Rightarrow> int \<times> int list option \<times> smsdb" where
  "smsdb_outgoing_part_status E ident addr mr st db =
     (let res = (0::int); fullkey = fullkey3 ident addr mr in
      if key_fails E then (-1, None, db)
      else
        let (res, partid, uid) =
              (if fails E (Bind Get_outgoingpart 1) then (-1, 0, 0)
               else if fails E (Step Get_outgoingpart) then (-1, 0, 0)
               else (case sql_get_outgoingpart fullkey db of
                       None \<Rightarrow> (-1, 0, 0)
                     | Some (c0, c1) \<Rightarrow> (res, sqlite3_column_int c0, sqlite3_column_int c1)));
            (res, db) =
              (if res \<ge> 0 then
                 (if fails E (Bind Set_outgoingpart 1) then (-1, db)
                  else if fails E (Bind Set_outgoingpart 2) then (-1, db)
                  else if fails E (Step Set_outgoingpart) then (-1, db)
                  else (res, sql_set_outgoingpart st partid db))
               else (res, db));
            res =
              (if res \<ge> 0 then
                 (if fails E (Bind Cnt_outgoingpart 1) then -1
                  else if fails E (Step Cnt_outgoingpart) then -1
                  else (case sql_cnt_outgoingpart uid db of
                          None \<Rightarrow> -1
                        | Some (c0, c1) \<Rightarrow>
                            (let cur = sqlite3_column_int c0; cnt = sqlite3_column_int c1
                             in if cur \<noteq> cnt then -2 else res)))
               else res);
            (res, status_all) =
              (if res \<ge> 0 then
                 (if fails E (Bind Get_all_status 1) then (-1, Some [-1])
                  else if fails E (Step Get_all_status) then (res, Some [-1])
                  else (res, Some (map status_int (sql_get_all_status uid db) @ [-1])))
               else (res, None))
        in
          if res \<ge> 0 then
            (let (r, db) = smsdb_outgoing_clear_nolock E uid db
             in (if r < 0 then -1 else res, status_all, db))
          else (res, status_all, db))"

subsection \<open>\<open>smsdb_outgoing_purge_one\<close>\<close>

text \<open>
  \<open>uid\<close> is the value the caller's \<open>*uid\<close> holds on entry; the result is
  \<open>(res, uid, dst, db)\<close> with the value of \<open>*uid\<close> on return.
\<close>

definition smsdb_outgoing_purge_one ::
  "sqlite_env \<Rightarrow> int \<Rightarrow> smsdb \<Rightarrow> int \<times> int \<times> string option \<times> smsdb" where
  "smsdb_outgoing_purge_one E uid db =
     (let res = (-1::int);
          (res, uid, dst) =
            (if fails E (Step Get_expired) then (-1, uid, None)
             else (case sql_get_expired (now E) db of
                     None \<Rightarrow> (-1, uid, None)
                   | Some (c0, c1) \<Rightarrow>
                       (res, sqlite3_column_int c0, Some (ast_str_set (dst_max_len E) c1))))
      in
        if res \<ge> 0 then
          (let (r, db) = smsdb_outgoing_clear_nolock E uid db
           in (if r < 0 then -1 else res, uid, dst, db))
        else (res, uid, dst, db))"

section \<open>The monitor thread (src/src/monitor_thread.c)\<close>

subsection \<open>Device state and the command-timeout task\<close>

text \<open>
  Of \<open>struct pvt\<close> the monitor code reads and writes \<open>terminate_monitor\<close>; the rest of the
  device state is the record's extension. Of \<open>struct at_queue_cmd\<close> it reads \<open>length\<close> and
  \<open>flags\<close>.
\<close>

record at_queue_cmd =
  cmd_length :: nat
  cmd_flags :: nat

record pvt =
  terminate_monitor :: bool

text \<open>\<open>restart_monitor\<close>\<close>

definition restart_monitor :: "'a pvt_scheme \<Rightarrow> 'a pvt_scheme" where
  "restart_monitor p = p\<lparr>terminate_monitor := True\<rparr>"

text \<open>
  \<open>cmd_timeout\<close>. Its collaborators are parameters: the flag constant
  \<open>ATQ_CMD_FLAG_IGNORE\<close>, \<open>at_queue_head_cmd\<close> (the head of the command queue, \<open>None\<close> for
  NULL) and \<open>at_response\<close> called with the empty string and \<open>RES_TIMEOUT\<close>, which returns
  its result and the device state it leaves. \<open>ecmd->flags\<close> is read after \<open>at_response\<close>
  through the pointer taken before it; the command read is the one found on entry.
\<close>

definition cmd_timeout ::
  "nat \<Rightarrow> ('a pvt_scheme \<Rightarrow> at_queue_cmd option) \<Rightarrow> ('a pvt_scheme \<Rightarrow> int \<times> 'a pvt_scheme)
     \<Rightarrow> 'a pvt_scheme \<Rightarrow> 'a pvt_scheme" where
  "cmd_timeout ATQ_CMD_FLAG_IGNORE at_queue_head_cmd at_response p =
     (case at_queue_head_cmd p of
        None \<Rightarrow> p
      | Some ecmd \<Rightarrow>
          if cmd_length ecmd \<noteq> 0 then p
          else
            (let (r, p) = at_response p in
             if r \<noteq> 0 then p\<lparr>terminate_monitor := True\<rparr>
             else if cmd_flags ecmd AND ATQ_CMD_FLAG_IGNORE \<noteq> 0 then p
             else p\<lparr>terminate_monitor := True\<rparr>))"

subsection \<open>One iteration of the monitor loop\<close>

definition TASKPROCESSOR_HIGH_WATER :: int where
  "TASKPROCESSOR_HIGH_WATER = 400"

definition RESPONSE_READ_TIMEOUT :: int where
  "RESPONSE_READ_TIMEOUT = 10000"

definition UNHANDLED_COMMAND_TIMEOUT :: int where
  "UNHANDLED_COMMAND_TIMEOUT = 500"

text \<open>\<open>check_taskprocessor\<close>: the size and the suspension are logged, the size decides.\<close>

definition check_taskprocessor :: "int \<Rightarrow> bool \<Rightarrow> bool" where
  "check_taskprocessor sz suspended = (sz \<ge> TASKPROCESSOR_HIGH_WATER)"

text \<open>
  What one pass through the body of \<open>while (1)\<close> in \<open>monitor_threadproc_pvt\<close> does is a list
  of events: a call of \<open>ast_taskprocessor_push\<close> with a task function (made whether or not
  the serializer accepts the task) and a call of \<open>at_wait\<close> with its timeout in
  milliseconds. The pass ends by starting the next iteration, by leaving the loop on a
  read error, or by a jump to \<open>e_cleanup\<close> or \<open>e_restart\<close>.
\<close>

datatype task =
  Handle_expired_reports_taskproc | At_enqueue_ping_taskproc | Restart_monitor_taskproc
  | Cmd_timeout_taskproc | At_response_taskproc

datatype event = Push task | Wait int

datatype outcome = Next_iteration | Read_error | E_cleanup | E_restart

text \<open>
  What the iteration observes of its surroundings: the results of
  \<open>ast_mutex_trylock\<close>, \<open>check_dev_status\<close>, \<open>at_queue_timeout\<close> (\<open>None\<close> for a nonzero result,
  else the time left in milliseconds), \<open>ast_taskprocessor_size\<close> and
  \<open>ast_taskprocessor_is_suspended\<close>, \<open>at_wait\<close> (whether data is ready), \<open>at_read\<close>, and for
  each frame that \<open>at_read_result_iov\<close> delivers the length \<open>at_combine_iov\<close> gives, whether
  \<open>at_response_taskproc_data_alloc\<close> returns data and whether the push of the response task
  fails.
\<close>

record frame =
  frame_len :: nat
  frame_alloc_ok :: bool
  frame_push_fails :: bool

record monitor_env =
  trylock_fails :: bool
  dev_status :: int
  queue_timeout :: "int option"
  tps_size :: int
  tps_suspended :: bool
  wait_ready :: bool
  read_iovcnt :: int
  frames :: "frame list"

text \<open>The loop \<open>while ((iovcnt = at_read_result_iov(...)) > 0)\<close>; \<open>True\<close> is the jump to \<open>e_restart\<close>.\<close>

fun drain_frames :: "frame list \<Rightarrow> event list \<times> bool" where
  "drain_frames [] = ([], False)"
| "drain_frames (f # fs) =
     (if frame_len f = 0 then drain_frames fs
      else if \<not> frame_alloc_ok f then drain_frames fs
      else if frame_push_fails f then ([Push At_response_taskproc], True)
      else (let (ev, r) = drain_frames fs in (Push At_response_taskproc # ev, r)))"

text \<open>The part of the body from \<open>at_read\<close> on, after the events \<open>ev\<close>.\<close>

definition read_and_dispatch :: "monitor_env \<Rightarrow> event list \<Rightarrow> event list \<times> outcome" where
  "read_and_dispatch M ev =
     (if read_iovcnt M < 0 then (ev, Read_error)
      else (let (ev', r) = drain_frames (frames M)
            in (ev @ ev', if r then E_restart else Next_iteration)))"

definition monitor_iteration :: "monitor_env \<Rightarrow> 'a pvt_scheme \<Rightarrow> event list \<times> outcome" where
  "monitor_iteration M p =
     (let ev = [Push Handle_expired_reports_taskproc] in
      if trylock_fails M then
        (let t = RESPONSE_READ_TIMEOUT in
         if \<not> wait_ready M then (ev @ [Wait t, Push At_enqueue_ping_taskproc], Next_iteration)
         else read_and_dispatch M (ev @ [Wait t]))
      else if dev_status M \<noteq> 0 then (ev, E_cleanup)
      else if terminate_monitor p then (ev, E_restart)
      else
        (case queue_timeout M of
           Some t \<Rightarrow>
             if t \<le> 0 then
               (let ev = ev @ (if check_taskprocessor (tps_size M) (tps_suspended M)
                               then [Push Restart_monitor_taskproc] else []);
                    ev = ev @ [Push Cmd_timeout_taskproc];
                    t = UNHANDLED_COMMAND_TIMEOUT;
                    ev = ev @ [Wait t]
                in if \<not> wait_ready M then (ev, Next_iteration) else read_and_dispatch M ev)
             else if \<not> wait_ready M then
               (ev @ [Wait t, Push Cmd_timeout_taskproc], Next_iteration)
             else read_and_dispatch M (ev @ [Wait t])
         | None \<Rightarrow>
             (let t = RESPONSE_READ_TIMEOUT; ev = ev @ [Wait t] in
              if \<not> wait_ready M then
                (ev @ (if check_taskprocessor (tps_size M) (tps_suspended M)
                       then [Push Restart_monitor_taskproc] else [])
                    @ [Push At_enqueue_ping_taskproc], Next_iteration)
              else read_and_dispatch M ev)))"

section \<open>Concrete stores and environments\<close>

text \<open>
  The stores used at concrete inputs below are built from the empty store by the
  operations themselves.
\<close>

text \<open>Part 1 of 2, \<open>Hel\<close>, of the message with reference 7 from \<open>B\<close> to subscriber \<open>A\<close>.\<close>

definition store_part1_of_2 :: smsdb where
  "store_part1_of_2 = snd (snd (smsdb_put (ok_env 0) ''A'' ''B'' 7 2 1 ''Hel'' empty_smsdb))"

text \<open>Part 1 of 3 of such a message.\<close>

definition store_part1_of_3 :: smsdb where
  "store_part1_of_3 = snd (snd (smsdb_put (ok_env 0) ''A'' ''B'' 7 3 1 ''Hel'' empty_smsdb))"

text \<open>An engine whose only failure is the step of \<open>put_message\<close>.\<close>

definition env_put_step_fails :: sqlite_env where
  "env_put_step_fails = (ok_env 1)\<lparr>fails := (\<lambda>c. c = Step Put_message)\<rparr>"

text \<open>
  One outgoing message of one part from device \<open>dev\<close> to \<open>123\<close>, added at time 0 with a
  time to live of 600 seconds; \<open>srr\<close> says whether status reports are requested.
\<close>

definition store_one_msg :: "int \<Rightarrow> smsdb" where
  "store_one_msg srr = snd (smsdb_outgoing_add (ok_env 0) ''dev'' ''123'' 1 600 srr empty_smsdb)"

text \<open>
  One outgoing message of one part without status reports, from device \<open>d\<close> to \<open>a\<close>, and
  its part with reference 5.
\<close>

definition store_sent :: "string \<Rightarrow> string \<Rightarrow> smsdb" where
  "store_sent d a =
     snd (snd (smsdb_outgoing_part_put (ok_env 1) 1 5
       (snd (smsdb_outgoing_add (ok_env 0) d a 1 600 0 empty_smsdb))))"

text \<open>A value that fits a C \<open>int\<close>.\<close>

definition fits_int :: "int \<Rightarrow> bool" where
  "fits_int v = (- 2147483648 \<le> v \<and> v < 2147483648)"

text \<open>
  A monitor iteration that takes the device lock, finds the device healthy and a command
  whose deadline has passed, and a serializer holding 401 tasks; \<open>ready\<close> says whether
  data arrives within the wait. No frame is complete.
\<close>

definition env_elapsed_backlog :: "bool \<Rightarrow> monitor_env" where
  "env_elapsed_backlog ready =
     \<lparr>trylock_fails = False, dev_status = 0, queue_timeout = Some 0, tps_size = 401,
      tps_suspended = False, wait_ready = ready, read_iovcnt = 0, frames = []\<rparr>"

section \<open>Properties of the SMS store\<close>

subsection \<open>Reference allocation\<close>

lemma sqlite3_column_int_small: "- 2147483648 \<le> v \<Longrightarrow> v < 2147483648 \<Longrightarrow> sqlite3_column_int v = v"
  unfolding sqlite3_column_int_def by (rule signed_take_bit_int_eq_self) simp_all

lemma int_incr_small: "- 2147483649 \<le> v \<Longrightarrow> v < 2147483647 \<Longrightarrow> int_incr v = v + 1"
  unfolding int_incr_def by (rule signed_take_bit_int_eq_self) simp_all

lemma next_ref_mod: "0 \<le> (p::int) \<Longrightarrow> p \<le> 255 \<Longrightarrow> (if p + 1 \<ge> 256 then 0 else p + 1) = (p + 1) mod 256"
  by auto

lemma smsdb_get_refid_ok:
  assumes nf: "no_faults E" and lo: "0 \<le> prev_ref db (fullkey2 ident addr)"
    and hi: "prev_ref db (fullkey2 ident addr) \<le> 255"
  shows "smsdb_get_refid E ident addr db =
    ((prev_ref db (fullkey2 ident addr) + 1) mod 256,
     db\<lparr>outgoing_ref := (outgoing_ref db)(fullkey2 ident addr \<mapsto> (prev_ref db (fullkey2 ident addr) + 1) mod 256)\<rparr>)"
proof (cases "outgoing_ref db (fullkey2 ident addr)")
  case None
  then show ?thesis using nf
    by (simp add: smsdb_get_refid_def no_faults_def sql_get_outgoingref_def prev_ref_def
        sql_ins_outgoingref_def int_incr_small)
next
  case (Some v)
  with lo hi have v: "0 \<le> v" "v \<le> 255" by (simp_all add: prev_ref_def)
  then have "sqlite3_column_int v = v" by (simp add: sqlite3_column_int_small)
  moreover have "int_incr v = v + 1" using v by (simp add: int_incr_small)
  ultimately show ?thesis using nf Some v next_ref_mod[of v]
    by (simp add: smsdb_get_refid_def no_faults_def sql_get_outgoingref_def prev_ref_def
        sql_set_outgoingref_def Let_def)
qed

lemma prev_ref_upd: "prev_ref (db\<lparr>outgoing_ref := (outgoing_ref db)(k \<mapsto> v)\<rparr>) k = v"
  by (simp add: prev_ref_def)

lemma refid_calls_ok:
  assumes "\<forall>E \<in> set Es. no_faults E" and "0 \<le> prev_ref db (fullkey2 ident addr)"
    and "prev_ref db (fullkey2 ident addr) \<le> 255"
  shows "fst (refid_calls Es ident addr db) =
    map (\<lambda>i. (prev_ref db (fullkey2 ident addr) + 1 + int i) mod 256) [0..<length Es]"
  using assms
proof (induction Es arbitrary: db)
  case Nil
  then show ?case by simp
next
  case (Cons E Es)
  let ?k = "fullkey2 ident addr"
  let ?p = "prev_ref db ?k"
  let ?db1 = "db\<lparr>outgoing_ref := (outgoing_ref db)(?k \<mapsto> (?p + 1) mod 256)\<rparr>"
  have step: "smsdb_get_refid E ident addr db = ((?p + 1) mod 256, ?db1)"
    using Cons.prems by (simp add: smsdb_get_refid_ok)
  have p1: "prev_ref ?db1 ?k = (?p + 1) mod 256" by (rule prev_ref_upd)
  have ih: "fst (refid_calls Es ident addr ?db1) =
      map (\<lambda>i. ((?p + 1) mod 256 + 1 + int i) mod 256) [0..<length Es]"
    using Cons.IH[of ?db1] Cons.prems(1) p1 by simp
  have eq: "((?p + 1) mod 256 + 1 + int i) mod 256 = (?p + 1 + int (Suc i)) mod 256" for i
  proof -
    have "((?p + 1) mod 256 + 1 + int i) mod 256 = ((?p + 1) mod 256 + (1 + int i)) mod 256"
      by (simp add: add.assoc)
    also have "\<dots> = ((?p + 1) + (1 + int i)) mod 256" by (rule mod_add_left_eq)
    also have "\<dots> = (?p + 1 + int (Suc i)) mod 256" by (simp add: algebra_simps)
    finally show ?thesis .
  qed
  have shift: "map (\<lambda>i. ((?p + 1) mod 256 + 1 + int i) mod 256) [0..<length Es]
      = map (\<lambda>i. (?p + 1 + int i) mod 256) [Suc 0..<Suc (length Es)]"
    unfolding map_Suc_upt[symmetric] map_map comp_def using eq by simp
  have "[0..<length (E # Es)] = 0 # [Suc 0..<Suc (length Es)]"
    by (simp add: upt_rec)
  then show ?case using step ih shift
    by (simp add: case_prod_beta Let_def del: upt_Suc)
qed

lemma cycle_distinct: "distinct (map (\<lambda>i. ((p::int) + 1 + int i) mod 256) [0..<256])"
proof -
  have "inj_on (\<lambda>i. (p + 1 + int i) mod 256) (set [0..<256])"
  proof (rule inj_onI)
    fix x y assume x: "x \<in> set [0..<256]" and y: "y \<in> set [0..<256]"
      and e: "(p + 1 + int x) mod 256 = (p + 1 + int y) mod 256"
    from e have "(int x) mod 256 = (int y) mod 256"
      by (metis add_diff_cancel_left' mod_diff_cong)
    with x y show "x = y" by simp
  qed
  then show ?thesis by (simp add: distinct_map)
qed

lemma cycle_set: "set (map (\<lambda>i. ((p::int) + 1 + int i) mod 256) [0..<256]) = {0..255}"
proof -
  let ?xs = "map (\<lambda>i. (p + 1 + int i) mod 256) [0..<256]"
  have sub: "set ?xs \<subseteq> {0..255}" by auto
  have "card (set ?xs) = 256" using cycle_distinct[of p] distinct_card[of ?xs] by simp
  moreover have "card {0..255::int} = 256" by simp
  ultimately show ?thesis using sub by (metis card_subset_eq finite_atLeastAtMost_int)
qed

lemma smsdb_get_refid_below_256: "0 \<le> fst (smsdb_get_refid E ident addr db) \<Longrightarrow> fst (smsdb_get_refid E ident addr db) \<le> 255"
  by (auto simp: smsdb_get_refid_def Let_def split: if_splits option.splits prod.splits)


text \<open>
  Claim C5. For a pair whose stored reference is in 0..255 (an absent row counting as
  255) and an engine that reports no error, \<open>smsdb_get_refid\<close> returns the stored
  reference plus one modulo 256 and stores what it returns, so the first call for a pair
  returns 0; 256 successive calls return the 256 values that follow the stored one, all
  different, which are the values 0..255; and whatever the engine does, a returned value
  that is not negative is at most 255.
\<close>

theorem smsdb_get_refid_cycle:
  assumes "no_faults E" and "\<forall>E' \<in> set Es. no_faults E'" and "length Es = 256"
    and "0 \<le> prev_ref db (fullkey2 ident addr)" and "prev_ref db (fullkey2 ident addr) \<le> 255"
  shows "fst (smsdb_get_refid E ident addr db) = (prev_ref db (fullkey2 ident addr) + 1) mod 256
    \<and> outgoing_ref (snd (smsdb_get_refid E ident addr db)) (fullkey2 ident addr)
        = Some (fst (smsdb_get_refid E ident addr db))
    \<and> (outgoing_ref db (fullkey2 ident addr) = None \<longrightarrow> fst (smsdb_get_refid E ident addr db) = 0)
    \<and> fst (refid_calls Es ident addr db)
        = map (\<lambda>i. (prev_ref db (fullkey2 ident addr) + 1 + int i) mod 256) [0..<256]
    \<and> distinct (fst (refid_calls Es ident addr db))
    \<and> set (fst (refid_calls Es ident addr db)) = {0..255}
    \<and> (\<forall>E'. 0 \<le> fst (smsdb_get_refid E' ident addr db)
          \<longrightarrow> fst (smsdb_get_refid E' ident addr db) \<le> 255)"
proof -
  let ?k = "fullkey2 ident addr"
  have one: "smsdb_get_refid E ident addr db =
      ((prev_ref db ?k + 1) mod 256,
       db\<lparr>outgoing_ref := (outgoing_ref db)(?k \<mapsto> (prev_ref db ?k + 1) mod 256)\<rparr>)"
    using assms(1,4,5) by (rule smsdb_get_refid_ok)
  have first: "outgoing_ref db ?k = None \<longrightarrow> (prev_ref db ?k + 1) mod 256 = 0"
    by (simp add: prev_ref_def)
  have many: "fst (refid_calls Es ident addr db)
      = map (\<lambda>i. (prev_ref db ?k + 1 + int i) mod 256) [0..<256]"
    using refid_calls_ok[OF assms(2,4,5)] assms(3) by simp
  have bound: "\<forall>E'. 0 \<le> fst (smsdb_get_refid E' ident addr db)
      \<longrightarrow> fst (smsdb_get_refid E' ident addr db) \<le> 255"
    using smsdb_get_refid_below_256 by blast
  show ?thesis
    unfolding many using one first bound cycle_distinct[of "prev_ref db ?k"]
      cycle_set[of "prev_ref db ?k"] by simp
qed

theorem smsdb_get_refid_cycle_witness:
  "no_faults (ok_env 0)
   \<and> prev_ref empty_smsdb (fullkey2 ''A'' ''B'') = 255
   \<and> fst (smsdb_get_refid (ok_env 0) ''A'' ''B'' empty_smsdb) = 0
   \<and> distinct (fst (refid_calls (replicate 256 (ok_env 0)) ''A'' ''B'' empty_smsdb))
   \<and> set (fst (refid_calls (replicate 256 (ok_env 0)) ''A'' ''B'' empty_smsdb)) = {0..255}"
proof -
  let ?Es = "replicate 256 (ok_env 0)"
  have nf: "no_faults (ok_env 0)"
    by (simp add: no_faults_def ok_env_def)
  have p: "prev_ref empty_smsdb (fullkey2 ''A'' ''B'') = 255"
    by (simp add: prev_ref_def empty_smsdb_def)
  have every: "\<forall>E' \<in> set ?Es. no_faults E'"
    using nf by simp
  have len: "length ?Es = 256"
    by simp
  have lo: "0 \<le> prev_ref empty_smsdb (fullkey2 ''A'' ''B'')"
    and hi: "prev_ref empty_smsdb (fullkey2 ''A'' ''B'') \<le> 255"
    by (simp_all add: p)
  note c = smsdb_get_refid_cycle[OF nf every len lo hi]
  from c have "fst (smsdb_get_refid (ok_env 0) ''A'' ''B'' empty_smsdb)
      = (prev_ref empty_smsdb (fullkey2 ''A'' ''B'') + 1) mod 256"
    by (rule conjunct1)
  then have r0: "fst (smsdb_get_refid (ok_env 0) ''A'' ''B'' empty_smsdb) = 0"
    by (simp add: p)
  from c have d: "distinct (fst (refid_calls ?Es ''A'' ''B'' empty_smsdb))"
    by blast
  from c have s: "set (fst (refid_calls ?Es ''A'' ''B'' empty_smsdb)) = {0..255}"
    by blast
  show ?thesis
    by (intro conjI nf p r0 d s)
qed

subsection \<open>Evaluation at concrete inputs\<close>

lemma fullkey4_A_B_7_2: "fullkey4 ''A'' ''B'' 7 2 = ''A/B/7/2''"
  by (simp add: fullkey4_def ast_str_set_def DBKEY_MAX_LEN_def fmt_d_def dec_digits.simps)

lemma fullkey4_A_B_7_3: "fullkey4 ''A'' ''B'' 7 3 = ''A/B/7/3''"
  by (simp add: fullkey4_def ast_str_set_def DBKEY_MAX_LEN_def fmt_d_def dec_digits.simps)

lemma fullkey3_dev_123_5: "fullkey3 ''dev'' ''123'' 5 = ''dev/123/5''"
  by (simp add: fullkey3_def ast_str_set_def DBKEY_MAX_LEN_def fmt_d_def dec_digits.simps)

lemmas put_eval = smsdb_put_def ok_env_def empty_smsdb_def sql_put_message_def sql_get_cnt_def
  sqlite3_column_int_def sql_get_full_message_def sql_clear_messages_def

lemmas out_eval = ok_env_def empty_smsdb_def sqlite3_column_int_def smsdb_outgoing_add_def
  next_uid_def sql_put_outgoingmsg_def

lemma store_part1_of_2_eq:
  "store_part1_of_2 = empty_smsdb\<lparr>incoming :=
     [\<lparr>in_key = ''A/B/7/2'', in_seqorder = 1, in_expiration = 600, in_message = Some ''Hel''\<rparr>]\<rparr>"
  by (simp add: store_part1_of_2_def fullkey4_A_B_7_2 put_eval)

lemma store_part1_of_3_eq:
  "store_part1_of_3 = empty_smsdb\<lparr>incoming :=
     [\<lparr>in_key = ''A/B/7/3'', in_seqorder = 1, in_expiration = 600, in_message = Some ''Hel''\<rparr>]\<rparr>"
  by (simp add: store_part1_of_3_def fullkey4_A_B_7_3 put_eval)

lemma store_one_msg_eq:
  "store_one_msg srr = empty_smsdb\<lparr>outgoing_msg :=
     [\<lparr>m_uid = 1, m_dev = ''dev'', m_dst = ''123'', m_cnt = 1, m_expiration = 600, m_srr = srr\<rparr>],
     outgoing_msg_seq := 1\<rparr>"
  by (simp add: store_one_msg_def out_eval)

subsection \<open>Reassembly of incoming parts\<close>

text \<open>
  Claim C1, at the sequence that supplies part 2 of 2 before part 1. The first call
  (order 2, text \<open>lo\<close>) finds one row, which is fewer than the two parts, and still writes
  \<open>lo\<close> to the output, returns 1 and deletes the row; the store is empty again. The
  second call (order 1, text \<open>Hel\<close>), after which every order has been supplied once,
  writes no output, returns 1 and leaves its row in the store. No call yields \<open>Hello\<close>.
\<close>

theorem smsdb_put_final_part_first:
  "smsdb_put (ok_env 0) ''A'' ''B'' 7 2 2 ''lo'' empty_smsdb = (1, Some ''lo'', empty_smsdb)
   \<and> smsdb_put (ok_env 1) ''A'' ''B'' 7 2 1 ''Hel'' empty_smsdb
       = (1, None, empty_smsdb\<lparr>incoming :=
           [\<lparr>in_key = ''A/B/7/2'', in_seqorder = 1, in_expiration = 601,
             in_message = Some ''Hel''\<rparr>]\<rparr>)"
  by (simp add: fullkey4_A_B_7_2 put_eval)

text \<open>
  Claim C2, at a store holding part 1 of 3. The call with order 3 of 3 finds two rows for
  the key, which differs from the three parts; it writes the two texts to the output and
  deletes both rows.
\<close>

theorem smsdb_put_concatenates_incomplete:
  "sql_get_cnt (fullkey4 ''A'' ''B'' 7 3) store_part1_of_3 = 1
   \<and> smsdb_put (ok_env 1) ''A'' ''B'' 7 3 3 ''rld'' store_part1_of_3
       = (2, Some ''Helrld'', empty_smsdb)"
  by (simp add: fullkey4_A_B_7_3 store_part1_of_3_eq put_eval)

text \<open>
  Claim C8, at a store holding part 1 of 2 and an engine whose step of the insert
  statement fails. The call with part 2 returns the row count 1, not a negative value; as
  its order is the number of parts, it also writes the stored text to the output and
  deletes the row.
\<close>

theorem smsdb_put_failed_insert_returns_count:
  "fails env_put_step_fails (Step Put_message)
   \<and> smsdb_put env_put_step_fails ''A'' ''B'' 7 2 2 ''lo'' store_part1_of_2
       = (1, Some ''Hel'', empty_smsdb)"
  by (simp add: fullkey4_A_B_7_2 store_part1_of_2_eq env_put_step_fails_def put_eval)

subsection \<open>Purging outgoing messages\<close>

text \<open>
  Claim C3, at a store holding one outgoing message that expired at time 600, swept at
  time 1000. The sweep finds the message, writes its uid 1 and its destination, returns
  -1 and leaves the store as it was.
\<close>

theorem smsdb_outgoing_purge_one_keeps_expired:
  "sql_get_expired (now (ok_env 1000)) (store_one_msg 1) = Some (1, ''123'')
   \<and> smsdb_outgoing_purge_one (ok_env 1000) 0 (store_one_msg 1)
       = (- 1, 1, Some ''123'', store_one_msg 1)"
  by (simp add: store_one_msg_eq smsdb_outgoing_purge_one_def sql_get_expired_def out_eval
      ast_str_set_def)

text \<open>On every store and with every engine the sweep returns -1 and deletes nothing.\<close>

lemma smsdb_outgoing_purge_one_never_purges:
  "fst (smsdb_outgoing_purge_one E uid db) = - 1
   \<and> snd (snd (snd (smsdb_outgoing_purge_one E uid db))) = db"
  by (simp add: smsdb_outgoing_purge_one_def split: option.split prod.split)

text \<open>
  Claim C4, at a store holding one unexpired outgoing message of one part that requests
  status reports. Adding its part with reference 5 at time 1 returns 0 with the
  destination and deletes the message and the part, whose status is still NULL. The same
  call for a message that requests no status reports returns -2 and keeps both rows.
\<close>

theorem smsdb_outgoing_part_put_purges_unreported:
  "sql_get_outgoingmsg 1 (store_one_msg 1) = Some (''dev'', ''123'', 1)
   \<and> sql_get_expired (now (ok_env 1)) (store_one_msg 1) = None
   \<and> smsdb_outgoing_part_put (ok_env 1) 1 5 (store_one_msg 1)
       = (0, Some ''123'', empty_smsdb\<lparr>outgoing_msg_seq := 1\<rparr>)
   \<and> smsdb_outgoing_part_put (ok_env 1) 1 5 (store_one_msg 0)
       = (- 2, None, (store_one_msg 0)\<lparr>outgoing_part :=
            [\<lparr>p_rowid = 1, p_key = ''dev/123/5'', p_msg = 1, p_status = None\<rparr>]\<rparr>)"
  by (simp add: store_one_msg_eq smsdb_outgoing_part_put_def sql_get_outgoingmsg_def
      sql_get_expired_def fullkey3_dev_123_5 sql_put_outgoingpart_def next_rowid_def
      sql_cnt_all_outgoingpart_def sql_get_dst_def smsdb_outgoing_clear_nolock_def
      sql_del_outgoingmsg_def sql_del_outgoingpart_def out_eval ast_str_set_def)

subsection \<open>The part whose order is the number of parts\<close>

lemma copy_parts_all_some:
  "copy_parts (map Some ts) res out = (res, out @ concat ts)"
  by (induction ts arbitrary: out) simp_all

lemma copy_parts_texts:
  assumes "\<forall>r \<in> set rs. in_message r \<noteq> None"
  shows "copy_parts (map in_message rs) res out = (res, out @ concat (map (the \<circ> in_message) rs))"
  using assms
proof (induction rs arbitrary: out)
  case Nil
  then show ?case by simp
next
  case (Cons r rs)
  then obtain t where t: "in_message r = Some t" by auto
  with Cons show ?case by simp
qed

text \<open>What a call with the order equal to the number of parts does when the engine reports no error.\<close>

lemma smsdb_put_final_order:
  assumes nf: "no_faults E"
    and texts: "\<forall>r \<in> set (incoming db). in_key r = fullkey4 ident addr ref parts \<longrightarrow> in_message r \<noteq> None"
    and db1: "db1 = sql_put_message (fullkey4 ident addr ref parts) parts (now E + csms_ttl E) msg db"
    and rows: "rows = filter (\<lambda>r. in_key r = fullkey4 ident addr ref parts) (incoming db1)"
    and fits: "length rows < 2147483648"
  shows "smsdb_put E ident addr ref parts parts msg db =
     (int (length rows), Some (concat (map (the \<circ> in_message) (sort_key in_seqorder rows))),
      sql_clear_messages (fullkey4 ident addr ref parts) db1)"
proof -
  let ?k = "fullkey4 ident addr ref parts"
  have pos: "0 < length rows"
    unfolding rows db1 by (simp add: sql_put_message_def)
  have cnt: "sqlite3_column_int (sql_get_cnt ?k db1) = int (length rows)"
    using fits unfolding rows by (simp add: sql_get_cnt_def sqlite3_column_int_small)
  have "\<forall>r \<in> set rows. in_message r \<noteq> None"
    using texts unfolding rows db1 by (auto simp: sql_put_message_def)
  then have "\<forall>r \<in> set (sort_key in_seqorder rows). in_message r \<noteq> None"
    by simp
  then have cp: "copy_parts (sql_get_full_message ?k db1) (int (length rows)) []
      = (int (length rows), concat (map (the \<circ> in_message) (sort_key in_seqorder rows)))"
    unfolding sql_get_full_message_def rows[symmetric] by (simp add: copy_parts_texts)
  show ?thesis
    using nf pos cnt cp
    by (simp add: smsdb_put_def no_faults_def Let_def db1[symmetric])
qed

text \<open>
  The two parts of a message supplied in order: the first call returns 1 and writes no
  output, the second returns 2, writes \<open>Hello\<close> and leaves no row for the key.
\<close>

lemma smsdb_put_in_order_example:
  "smsdb_put (ok_env 0) ''A'' ''B'' 7 2 1 ''Hel'' empty_smsdb = (1, None, store_part1_of_2)
   \<and> smsdb_put (ok_env 1) ''A'' ''B'' 7 2 2 ''lo'' store_part1_of_2 = (2, Some ''Hello'', empty_smsdb)
   \<and> sql_get_cnt (fullkey4 ''A'' ''B'' 7 2) empty_smsdb = 0"
  by (simp add: fullkey4_A_B_7_2 store_part1_of_2_eq put_eval)

subsection \<open>A repeated part\<close>

lemma smsdb_put_stores:
  assumes "no_faults E" and "ord \<noteq> parts"
  shows "smsdb_put E ident addr ref parts ord msg db =
     (sqlite3_column_int (sql_get_cnt (fullkey4 ident addr ref parts)
        (sql_put_message (fullkey4 ident addr ref parts) ord (now E + csms_ttl E) msg db)),
      None,
      sql_put_message (fullkey4 ident addr ref parts) ord (now E + csms_ttl E) msg db)"
  using assms by (simp add: smsdb_put_def no_faults_def Let_def)

lemma sql_put_message_row:
  "filter (\<lambda>r. in_key r = k \<and> in_seqorder r = ord) (incoming (sql_put_message k ord exp m db))
     = [\<lparr>in_key = k, in_seqorder = ord, in_expiration = exp, in_message = Some m\<rparr>]"
  by (simp add: sql_put_message_def)

lemma sql_put_message_again:
  "incoming (sql_put_message k ord exp2 m2 (sql_put_message k ord exp1 m1 db))
     = filter (\<lambda>r. \<not> (in_key r = k \<and> in_seqorder r = ord)) (incoming db)
       @ [\<lparr>in_key = k, in_seqorder = ord, in_expiration = exp2, in_message = Some m2\<rparr>]"
  by (simp add: sql_put_message_def)

lemma sql_get_cnt_put_again:
  "sql_get_cnt k (sql_put_message k ord exp2 m2 (sql_put_message k ord exp1 m1 db))
     = sql_get_cnt k (sql_put_message k ord exp1 m1 db)"
  by (simp add: sql_get_cnt_def sql_put_message_def)

lemma no_rows_after_clear:
  "filter (\<lambda>r. in_key r = k) (incoming (sql_clear_messages k db)) = []"
  by (simp add: sql_clear_messages_def filter_empty_conv)

lemma one_row_after_clear_put:
  "filter (\<lambda>r. in_key r = k) (incoming (sql_put_message k ord exp m (sql_clear_messages k db)))
     = [\<lparr>in_key = k, in_seqorder = ord, in_expiration = exp, in_message = Some m\<rparr>]"
  by (auto simp: sql_put_message_def sql_clear_messages_def filter_empty_conv)

text \<open>A call that completes the message, and the same call again.\<close>

lemma smsdb_put_completes_then_repeats:
  assumes nf1: "no_faults E1" and nf2: "no_faults E2"
    and texts: "\<forall>r \<in> set (incoming db). in_key r = fullkey4 ident addr ref parts \<longrightarrow> in_message r \<noteq> None"
    and complete: "sql_get_cnt (fullkey4 ident addr ref parts)
        (sql_put_message (fullkey4 ident addr ref parts) parts (now E1 + csms_ttl E1) msg1 db) = parts"
    and fits: "fits_int parts"
    and first: "smsdb_put E1 ident addr ref parts parts msg1 db = (r1, o1, db1)"
    and second: "smsdb_put E2 ident addr ref parts parts msg2 db1 = (r2, o2, db2)"
  shows "r1 = parts \<and> filter (\<lambda>r. in_key r = fullkey4 ident addr ref parts) (incoming db1) = [] \<and> r2 = 1"
proof -
  let ?k = "fullkey4 ident addr ref parts"
  let ?dbp = "sql_put_message ?k parts (now E1 + csms_ttl E1) msg1 db"
  let ?rows = "filter (\<lambda>r. in_key r = ?k) (incoming ?dbp)"
  have len: "int (length ?rows) = parts"
    using complete by (simp add: sql_get_cnt_def)
  with fits have small: "length ?rows < 2147483648"
    by (simp add: fits_int_def)
  have run1: "smsdb_put E1 ident addr ref parts parts msg1 db =
      (int (length ?rows), Some (concat (map (the \<circ> in_message) (sort_key in_seqorder ?rows))),
       sql_clear_messages ?k ?dbp)"
    by (rule smsdb_put_final_order[OF nf1 texts refl refl small])
  with first have res1: "(r1, o1, db1) =
      (int (length ?rows), Some (concat (map (the \<circ> in_message) (sort_key in_seqorder ?rows))),
       sql_clear_messages ?k ?dbp)"
    by simp
  from res1 have "r1 = int (length ?rows)"
    by blast
  with len have r1: "r1 = parts"
    by simp
  from res1 have d1: "db1 = sql_clear_messages ?k ?dbp"
    by blast
  have gone: "filter (\<lambda>r. in_key r = ?k) (incoming db1) = []"
    unfolding d1 by (rule no_rows_after_clear)
  then have texts2: "\<forall>r \<in> set (incoming db1). in_key r = ?k \<longrightarrow> in_message r \<noteq> None"
    by (simp add: filter_empty_conv)
  let ?dbq = "sql_put_message ?k parts (now E2 + csms_ttl E2) msg2 db1"
  let ?rows2 = "filter (\<lambda>r. in_key r = ?k) (incoming ?dbq)"
  have one: "length ?rows2 = 1"
    unfolding d1 by (simp add: one_row_after_clear_put)
  then have small2: "length ?rows2 < 2147483648"
    by simp
  have "smsdb_put E2 ident addr ref parts parts msg2 db1 =
      (int (length ?rows2), Some (concat (map (the \<circ> in_message) (sort_key in_seqorder ?rows2))),
       sql_clear_messages ?k ?dbq)"
    by (rule smsdb_put_final_order[OF nf2 texts2 refl refl small2])
  with second have res2: "(r2, o2, db2) =
      (int (length ?rows2), Some (concat (map (the \<circ> in_message) (sort_key in_seqorder ?rows2))),
       sql_clear_messages ?k ?dbq)"
    by simp
  from res2 have "r2 = int (length ?rows2)"
    by blast
  with one have r2: "r2 = 1"
    by simp
  show ?thesis using r1 gone r2 by simp
qed

text \<open>
  Claim C6, as amended. Two calls of \<open>smsdb_put\<close> with the same key and order follow each
  other, the engine reporting no error.
  For an order that is not the number of parts, the second call leaves exactly one row
  for that key and order, holding the new text; the number of rows of the key, which is
  what both calls return, is the same after the second call as after the first; and
  neither call writes the output.
  For the order that is the number of parts, when the first call completes the message
  (with its part stored, the key has as many rows as the message has parts) it returns
  that number and deletes the rows of the key, so the second call finds no stored text,
  counts its own row only and returns 1.
\<close>

theorem smsdb_put_duplicate_order:
  assumes "no_faults E1" and "no_faults E2"
    and "smsdb_put E1 ident addr ref parts ord msg1 db = (r1, o1, db1)"
    and "smsdb_put E2 ident addr ref parts ord msg2 db1 = (r2, o2, db2)"
  shows "(ord \<noteq> parts \<longrightarrow>
        filter (\<lambda>r. in_key r = fullkey4 ident addr ref parts \<and> in_seqorder r = ord) (incoming db2)
          = [\<lparr>in_key = fullkey4 ident addr ref parts, in_seqorder = ord,
              in_expiration = now E2 + csms_ttl E2, in_message = Some msg2\<rparr>]
        \<and> sql_get_cnt (fullkey4 ident addr ref parts) db2
            = sql_get_cnt (fullkey4 ident addr ref parts) db1
        \<and> r2 = r1 \<and> o1 = None \<and> o2 = None)
    \<and> (ord = parts
        \<and> sql_get_cnt (fullkey4 ident addr ref parts)
            (sql_put_message (fullkey4 ident addr ref parts) parts (now E1 + csms_ttl E1) msg1 db)
            = parts
        \<and> fits_int parts
        \<and> (\<forall>r \<in> set (incoming db).
              in_key r = fullkey4 ident addr ref parts \<longrightarrow> in_message r \<noteq> None)
        \<longrightarrow> r1 = parts
          \<and> filter (\<lambda>r. in_key r = fullkey4 ident addr ref parts) (incoming db1) = []
          \<and> r2 = 1)"
proof (intro conjI impI)
  let ?k = "fullkey4 ident addr ref parts"
  assume ne: "ord \<noteq> parts"
  have d1: "db1 = sql_put_message ?k ord (now E1 + csms_ttl E1) msg1 db"
    and r1: "r1 = sqlite3_column_int (sql_get_cnt ?k db1)" and o1: "o1 = None"
    using assms(3) smsdb_put_stores[OF assms(1) ne, of ident addr ref msg1 db] by auto
  have d2: "db2 = sql_put_message ?k ord (now E2 + csms_ttl E2) msg2 db1"
    and r2: "r2 = sqlite3_column_int (sql_get_cnt ?k db2)" and o2: "o2 = None"
    using assms(4) smsdb_put_stores[OF assms(2) ne, of ident addr ref msg2 db1] by auto
  have row: "filter (\<lambda>r. in_key r = ?k \<and> in_seqorder r = ord) (incoming db2)
      = [\<lparr>in_key = ?k, in_seqorder = ord, in_expiration = now E2 + csms_ttl E2,
          in_message = Some msg2\<rparr>]"
    unfolding d2 by (rule sql_put_message_row)
  have cnt: "sql_get_cnt ?k db2 = sql_get_cnt ?k db1"
    unfolding d2 d1 by (rule sql_get_cnt_put_again)
  show "filter (\<lambda>r. in_key r = ?k \<and> in_seqorder r = ord) (incoming db2)
        = [\<lparr>in_key = ?k, in_seqorder = ord, in_expiration = now E2 + csms_ttl E2,
            in_message = Some msg2\<rparr>]"
    by (rule row)
  show "sql_get_cnt ?k db2 = sql_get_cnt ?k db1"
    by (rule cnt)
  show "r2 = r1"
    using cnt r1 r2 by simp
  show "o1 = None"
    by (rule o1)
  show "o2 = None"
    by (rule o2)
next
  let ?k = "fullkey4 ident addr ref parts"
  assume c: "ord = parts
      \<and> sql_get_cnt ?k (sql_put_message ?k parts (now E1 + csms_ttl E1) msg1 db) = parts
      \<and> fits_int parts
      \<and> (\<forall>r \<in> set (incoming db). in_key r = ?k \<longrightarrow> in_message r \<noteq> None)"
  then have first: "smsdb_put E1 ident addr ref parts parts msg1 db = (r1, o1, db1)"
    and second: "smsdb_put E2 ident addr ref parts parts msg2 db1 = (r2, o2, db2)"
    using assms(3,4) by simp_all
  from c have texts: "\<forall>r \<in> set (incoming db). in_key r = ?k \<longrightarrow> in_message r \<noteq> None"
    and complete: "sql_get_cnt ?k (sql_put_message ?k parts (now E1 + csms_ttl E1) msg1 db) = parts"
    and fits: "fits_int parts"
    by blast+
  note t = smsdb_put_completes_then_repeats[OF assms(1,2) texts complete fits first second]
  from t show "r1 = parts"
    by blast
  from t show "filter (\<lambda>r. in_key r = ?k) (incoming db1) = []"
    by blast
  from t show "r2 = 1"
    by blast
qed

theorem smsdb_put_duplicate_order_witness:
  "no_faults (ok_env 0) \<and> no_faults (ok_env 5)
   \<and> smsdb_put (ok_env 0) ''A'' ''B'' 7 2 1 ''Hel'' empty_smsdb = (1, None, store_part1_of_2)
   \<and> fst (smsdb_put (ok_env 5) ''A'' ''B'' 7 2 1 ''HEL'' store_part1_of_2) = 1
   \<and> filter (\<lambda>r. in_key r = ''A/B/7/2'' \<and> in_seqorder r = 1)
        (incoming (snd (snd (smsdb_put (ok_env 5) ''A'' ''B'' 7 2 1 ''HEL'' store_part1_of_2))))
      = [\<lparr>in_key = ''A/B/7/2'', in_seqorder = 1, in_expiration = 605, in_message = Some ''HEL''\<rparr>]
   \<and> sql_get_cnt (fullkey4 ''A'' ''B'' 7 2)
        (sql_put_message (fullkey4 ''A'' ''B'' 7 2) 2 (now (ok_env 0) + csms_ttl (ok_env 0)) ''lo''
           store_part1_of_2) = 2
   \<and> fits_int 2
   \<and> fst (smsdb_put (ok_env 0) ''A'' ''B'' 7 2 2 ''lo'' store_part1_of_2) = 2
   \<and> fst (smsdb_put (ok_env 5) ''A'' ''B'' 7 2 2 ''lo''
        (snd (snd (smsdb_put (ok_env 0) ''A'' ''B'' 7 2 2 ''lo'' store_part1_of_2)))) = 1"
proof -
  let ?R = "smsdb_put (ok_env 5) ''A'' ''B'' 7 2 1 ''HEL'' store_part1_of_2"
  let ?C = "smsdb_put (ok_env 0) ''A'' ''B'' 7 2 2 ''lo'' store_part1_of_2"
  let ?D = "smsdb_put (ok_env 5) ''A'' ''B'' 7 2 2 ''lo'' (snd (snd ?C))"
  have nf0: "no_faults (ok_env 0)" and nf5: "no_faults (ok_env 5)"
    by (simp_all add: no_faults_def ok_env_def)
  have ne: "(1::int) \<noteq> 2"
    by simp
  have first: "smsdb_put (ok_env 0) ''A'' ''B'' 7 2 1 ''Hel'' empty_smsdb
      = (1, None, store_part1_of_2)"
    by (simp add: store_part1_of_2_eq fullkey4_A_B_7_2 put_eval)
  have second: "?R = (fst ?R, fst (snd ?R), snd (snd ?R))"
    by simp
  note t = smsdb_put_duplicate_order[OF nf0 nf5 first second, THEN conjunct1, rule_format, OF ne]
  from t have r: "fst ?R = 1"
    by simp
  from t have row: "filter (\<lambda>r. in_key r = ''A/B/7/2'' \<and> in_seqorder r = 1) (incoming (snd (snd ?R)))
      = [\<lparr>in_key = ''A/B/7/2'', in_seqorder = 1, in_expiration = 605, in_message = Some ''HEL''\<rparr>]"
    by (simp add: fullkey4_A_B_7_2 ok_env_def)
  have complete: "sql_get_cnt (fullkey4 ''A'' ''B'' 7 2)
      (sql_put_message (fullkey4 ''A'' ''B'' 7 2) 2 (now (ok_env 0) + csms_ttl (ok_env 0)) ''lo''
         store_part1_of_2) = 2"
    by (simp add: store_part1_of_2_eq fullkey4_A_B_7_2 sql_get_cnt_def sql_put_message_def
        empty_smsdb_def)
  have fits: "fits_int 2"
    by (simp add: fits_int_def)
  have texts: "\<forall>r \<in> set (incoming store_part1_of_2).
      in_key r = fullkey4 ''A'' ''B'' 7 2 \<longrightarrow> in_message r \<noteq> None"
    by (simp add: store_part1_of_2_eq empty_smsdb_def)
  have third: "?C = (fst ?C, fst (snd ?C), snd (snd ?C))"
    by simp
  have fourth: "?D = (fst ?D, fst (snd ?D), snd (snd ?D))"
    by simp
  have both: "(2::int) = 2 \<and> sql_get_cnt (fullkey4 ''A'' ''B'' 7 2)
      (sql_put_message (fullkey4 ''A'' ''B'' 7 2) 2 (now (ok_env 0) + csms_ttl (ok_env 0)) ''lo''
         store_part1_of_2) = 2
      \<and> fits_int 2
      \<and> (\<forall>r \<in> set (incoming store_part1_of_2).
            in_key r = fullkey4 ''A'' ''B'' 7 2 \<longrightarrow> in_message r \<noteq> None)"
    using complete fits texts by simp
  note u = smsdb_put_duplicate_order[OF nf0 nf5 third fourth, THEN conjunct2, rule_format, OF both]
  from u have c1: "fst ?C = 2"
    by blast
  from u have c2: "fst ?D = 1"
    by blast
  show ?thesis
    by (intro conjI nf0 nf5 first r row complete fits c1 c2)
qed

text \<open>
  The claim as stated does not hold for the call that completes a message. On a store
  holding part 1 of 2, the call with part 2 finds two rows for two parts, returns 2 with
  the joined text and deletes the rows of the key, as the function is documented to do
  on completion. The same call again therefore has no stored text to replace and returns
  the row count 1, not the 2 of the first call.
\<close>

theorem smsdb_put_repeat_after_completion:
  "sql_get_cnt (fullkey4 ''A'' ''B'' 7 2) store_part1_of_2 = 1
   \<and> smsdb_put (ok_env 1) ''A'' ''B'' 7 2 2 ''lo'' store_part1_of_2 = (2, Some ''Hello'', empty_smsdb)
   \<and> sql_get_cnt (fullkey4 ''A'' ''B'' 7 2) empty_smsdb = 0
   \<and> fst (smsdb_put (ok_env 2) ''A'' ''B'' 7 2 2 ''lo'' empty_smsdb) = 1"
  by (simp add: fullkey4_A_B_7_2 store_part1_of_2_eq put_eval)

subsection \<open>Settlement of an outgoing message\<close>

lemma sqlite3_column_int_fits: "fits_int v \<Longrightarrow> sqlite3_column_int v = v"
  by (simp add: fits_int_def sqlite3_column_int_small)

lemma smsdb_outgoing_clear_nolock_ok:
  "no_faults E \<Longrightarrow> smsdb_outgoing_clear_nolock E uid db
     = (0, sql_del_outgoingpart uid (sql_del_outgoingmsg uid db))"
  by (simp add: smsdb_outgoing_clear_nolock_def no_faults_def)

lemma purged_msg: "filter (\<lambda>m. m_uid m = uid)
    (outgoing_msg (sql_del_outgoingpart uid (sql_del_outgoingmsg uid db))) = []"
  by (simp add: sql_del_outgoingpart_def sql_del_outgoingmsg_def filter_empty_conv)

lemma purged_parts: "filter (\<lambda>p. p_msg p = uid)
    (outgoing_part (sql_del_outgoingpart uid (sql_del_outgoingmsg uid db))) = []"
  by (simp add: sql_del_outgoingpart_def sql_del_outgoingmsg_def filter_empty_conv)

text \<open>With a unique key per part, a part found under a key is the only one with that key.\<close>

lemma find_key_msg:
  assumes "distinct (map p_key ps)" and "find (\<lambda>p. p_key p = k) ps = Some p"
    and "q \<in> set ps" and "p_key q = k"
  shows "q = p"
proof -
  from assms(2) have "p \<in> set ps" and "p_key p = k"
    by (auto simp: find_Some_iff)
  moreover from assms(1) have "inj_on p_key (set ps)"
    by (simp add: distinct_map)
  ultimately show ?thesis using assms(3,4) by (auto dest: inj_onD)
qed

lemma key_gone_after_purge:
  assumes keys: "distinct (map p_key (outgoing_part db))"
    and part: "sql_get_outgoingpart k db = Some (rid, uid)"
  shows "sql_get_outgoingpart k
      (sql_del_outgoingpart uid (sql_del_outgoingmsg uid (sql_set_outgoingpart st rowid db))) = None"
proof -
  from part obtain p where p: "find (\<lambda>p. p_key p = k) (outgoing_part db) = Some p"
    and pm: "p_msg p = uid"
    by (auto simp: sql_get_outgoingpart_def)
  have "\<not> (\<exists>q \<in> set (outgoing_part
      (sql_del_outgoingpart uid (sql_del_outgoingmsg uid (sql_set_outgoingpart st rowid db)))).
      p_key q = k)"
  proof
    assume "\<exists>q \<in> set (outgoing_part
      (sql_del_outgoingpart uid (sql_del_outgoingmsg uid (sql_set_outgoingpart st rowid db)))).
      p_key q = k"
    then obtain q0 where q0: "q0 \<in> set (outgoing_part db)" and k0: "p_key q0 = k"
      and m0: "p_msg q0 \<noteq> uid"
      by (auto simp: sql_del_outgoingpart_def sql_del_outgoingmsg_def sql_set_outgoingpart_def
          split: if_splits)
    from find_key_msg[OF keys p q0 k0] pm m0 show False by simp
  qed
  then show ?thesis
    by (simp add: sql_get_outgoingpart_def find_None_iff)
qed

lemma smsdb_outgoing_part_status_not_found:
  "sql_get_outgoingpart (fullkey3 ident addr mr) db = None
   \<Longrightarrow> smsdb_outgoing_part_status E ident addr mr st db = (- 1, None, db)"
  by (simp add: smsdb_outgoing_part_status_def)

lemma rowid_order_is_table_order:
  assumes "sorted (map p_rowid (outgoing_part db))"
  shows "sql_get_all_status uid (sql_set_outgoingpart st rowid db)
     = map p_status (filter (\<lambda>p. p_msg p = uid) (outgoing_part (sql_set_outgoingpart st rowid db)))"
proof -
  let ?ps = "outgoing_part (sql_set_outgoingpart st rowid db)"
  have "map p_rowid ?ps = map p_rowid (outgoing_part db)"
    by (simp add: sql_set_outgoingpart_def)
  with assms have "sorted (map p_rowid ?ps)" by simp
  then have "sorted (map p_rowid (filter (\<lambda>p. p_msg p = uid) ?ps))"
    by (rule sorted_filter)
  then have "sort_key p_rowid (filter (\<lambda>p. p_msg p = uid) ?ps) = filter (\<lambda>p. p_msg p = uid) ?ps"
    by (rule sort_key_id_if_sorted)
  then show ?thesis by (simp add: sql_get_all_status_def)
qed

text \<open>
  Claim C7, as amended. Take a store in which part keys are unique (the primary key), an
  engine that reports no error, and a call of \<open>smsdb_outgoing_part_status\<close> whose key
  finds a part of message \<open>uid\<close> such that, once the status is written, the declared part
  count of the message equals the number of its parts with a final status. The call
  returns 0, writes to \<open>status_all\<close> the statuses of the message's parts in rowid order
  (a NULL status as 0) followed by -1, and deletes the message's row and its part rows.
  Where rowids ascend in the table, as they do when each new part gets the next rowid,
  rowid order is insertion order. Every later call with the same key, and with the key
  of any other part of that message, finds no part and returns -1, whatever the engine
  does. The function has no output for the destination.
\<close>

theorem smsdb_outgoing_part_status_settles_once:
  assumes nf: "no_faults E"
    and keys: "distinct (map p_key (outgoing_part db))"
    and part: "sql_get_outgoingpart (fullkey3 ident addr mr) db = Some (rowid, uid)"
    and fits: "fits_int rowid" "fits_int uid"
    and settled: "sql_cnt_outgoingpart uid (sql_set_outgoingpart st rowid db) = Some (c, c)"
  shows "(let db1 = sql_set_outgoingpart st rowid db;
              db2 = sql_del_outgoingpart uid (sql_del_outgoingmsg uid db1)
          in smsdb_outgoing_part_status E ident addr mr st db =
               (0, Some (map status_int (sql_get_all_status uid db1) @ [- 1]), db2)
           \<and> (sorted (map p_rowid (outgoing_part db)) \<longrightarrow>
                sql_get_all_status uid db1
                  = map p_status (filter (\<lambda>p. p_msg p = uid) (outgoing_part db1)))
           \<and> filter (\<lambda>m. m_uid m = uid) (outgoing_msg db2) = []
           \<and> filter (\<lambda>p. p_msg p = uid) (outgoing_part db2) = []
           \<and> (\<forall>E' st'. smsdb_outgoing_part_status E' ident addr mr st' db2 = (- 1, None, db2))
           \<and> (\<forall>E' i a r st' rid. sql_get_outgoingpart (fullkey3 i a r) db = Some (rid, uid)
                 \<longrightarrow> smsdb_outgoing_part_status E' i a r st' db2 = (- 1, None, db2)))"
proof -
  define db1 where "db1 = sql_set_outgoingpart st rowid db"
  define db2 where "db2 = sql_del_outgoingpart uid (sql_del_outgoingmsg uid db1)"
  have run: "smsdb_outgoing_part_status E ident addr mr st db =
      (0, Some (map status_int (sql_get_all_status uid db1) @ [- 1]), db2)"
    using nf part settled fits
    by (simp add: smsdb_outgoing_part_status_def no_faults_def sqlite3_column_int_fits
        smsdb_outgoing_clear_nolock_def db1_def db2_def)
  have later: "smsdb_outgoing_part_status E' i a r st' db2 = (- 1, None, db2)"
    if "sql_get_outgoingpart (fullkey3 i a r) db = Some (rid, uid)" for E' i a r st' rid
    unfolding db2_def db1_def
    by (rule smsdb_outgoing_part_status_not_found) (rule key_gone_after_purge[OF keys that])
  have order: "sorted (map p_rowid (outgoing_part db)) \<longrightarrow>
      sql_get_all_status uid db1 = map p_status (filter (\<lambda>p. p_msg p = uid) (outgoing_part db1))"
    unfolding db1_def using rowid_order_is_table_order[of db uid st rowid] by blast
  have gone: "filter (\<lambda>m. m_uid m = uid) (outgoing_msg db2) = []"
      "filter (\<lambda>p. p_msg p = uid) (outgoing_part db2) = []"
    unfolding db2_def by (rule purged_msg, rule purged_parts)
  have "smsdb_outgoing_part_status E ident addr mr st db =
        (0, Some (map status_int (sql_get_all_status uid db1) @ [- 1]), db2)
      \<and> (sorted (map p_rowid (outgoing_part db)) \<longrightarrow>
           sql_get_all_status uid db1 = map p_status (filter (\<lambda>p. p_msg p = uid) (outgoing_part db1)))
      \<and> filter (\<lambda>m. m_uid m = uid) (outgoing_msg db2) = []
      \<and> filter (\<lambda>p. p_msg p = uid) (outgoing_part db2) = []
      \<and> (\<forall>E' st'. smsdb_outgoing_part_status E' ident addr mr st' db2 = (- 1, None, db2))
      \<and> (\<forall>E' i a r st' rid. sql_get_outgoingpart (fullkey3 i a r) db = Some (rid, uid)
            \<longrightarrow> smsdb_outgoing_part_status E' i a r st' db2 = (- 1, None, db2))"
    using run order gone later later[OF part] by blast
  then show ?thesis
    unfolding Let_def db1_def db2_def .
qed

lemma fullkey3_a_b_c_5: "fullkey3 ''a/b'' ''c'' 5 = ''a/b/c/5''" "fullkey3 ''a'' ''b/c'' 5 = ''a/b/c/5''"
  by (simp_all add: fullkey3_def ast_str_set_def DBKEY_MAX_LEN_def fmt_d_def dec_digits.simps)

lemmas part_eval = smsdb_outgoing_part_put_def sql_get_outgoingmsg_def sql_put_outgoingpart_def
  next_rowid_def sql_cnt_all_outgoingpart_def sql_get_dst_def smsdb_outgoing_clear_nolock_def
  sql_del_outgoingmsg_def sql_del_outgoingpart_def ast_str_set_def ok_env_def empty_smsdb_def
  sqlite3_column_int_def smsdb_outgoing_add_def next_uid_def sql_put_outgoingmsg_def

lemmas status_eval = smsdb_outgoing_part_status_def sql_get_outgoingpart_def
  sql_set_outgoingpart_def sql_cnt_outgoingpart_def status_final_def sql_get_all_status_def
  status_int_def smsdb_outgoing_clear_nolock_def sql_del_outgoingmsg_def
  sql_del_outgoingpart_def ok_env_def empty_smsdb_def sqlite3_column_int_def

lemma store_sent_dev_123:
  "store_sent ''dev'' ''123'' = empty_smsdb\<lparr>outgoing_msg :=
       [\<lparr>m_uid = 1, m_dev = ''dev'', m_dst = ''123'', m_cnt = 1, m_expiration = 600, m_srr = 0\<rparr>],
     outgoing_msg_seq := 1,
     outgoing_part := [\<lparr>p_rowid = 1, p_key = ''dev/123/5'', p_msg = 1, p_status = None\<rparr>]\<rparr>"
  by (simp add: store_sent_def fullkey3_dev_123_5 part_eval)

lemma store_sent_a_b_c:
  "store_sent ''a/b'' ''c'' = empty_smsdb\<lparr>outgoing_msg :=
       [\<lparr>m_uid = 1, m_dev = ''a/b'', m_dst = ''c'', m_cnt = 1, m_expiration = 600, m_srr = 0\<rparr>],
     outgoing_msg_seq := 1,
     outgoing_part := [\<lparr>p_rowid = 1, p_key = ''a/b/c/5'', p_msg = 1, p_status = None\<rparr>]\<rparr>"
  "store_sent ''a'' ''b/c'' = empty_smsdb\<lparr>outgoing_msg :=
       [\<lparr>m_uid = 1, m_dev = ''a'', m_dst = ''b/c'', m_cnt = 1, m_expiration = 600, m_srr = 0\<rparr>],
     outgoing_msg_seq := 1,
     outgoing_part := [\<lparr>p_rowid = 1, p_key = ''a/b/c/5'', p_msg = 1, p_status = None\<rparr>]\<rparr>"
  by (simp_all add: store_sent_def fullkey3_a_b_c_5 part_eval)

theorem smsdb_outgoing_part_status_settles_once_witness:
  "no_faults (ok_env 2)
   \<and> sql_get_outgoingpart (fullkey3 ''dev'' ''123'' 5) (store_sent ''dev'' ''123'') = Some (1, 1)
   \<and> sql_cnt_outgoingpart 1 (sql_set_outgoingpart 0 1 (store_sent ''dev'' ''123'')) = Some (1, 1)
   \<and> smsdb_outgoing_part_status (ok_env 2) ''dev'' ''123'' 5 0 (store_sent ''dev'' ''123'')
       = (0, Some [0, - 1], empty_smsdb\<lparr>outgoing_msg_seq := 1\<rparr>)
   \<and> smsdb_outgoing_part_status (ok_env 3) ''dev'' ''123'' 5 0 (empty_smsdb\<lparr>outgoing_msg_seq := 1\<rparr>)
       = (- 1, None, empty_smsdb\<lparr>outgoing_msg_seq := 1\<rparr>)"
proof -
  let ?db = "store_sent ''dev'' ''123''"
  let ?db1 = "sql_set_outgoingpart 0 1 ?db"
  let ?db2 = "sql_del_outgoingpart 1 (sql_del_outgoingmsg 1 ?db1)"
  have nf: "no_faults (ok_env 2)"
    by (simp add: no_faults_def ok_env_def)
  have keys: "distinct (map p_key (outgoing_part ?db))"
    by (simp add: store_sent_dev_123 empty_smsdb_def)
  have part: "sql_get_outgoingpart (fullkey3 ''dev'' ''123'' 5) ?db = Some (1, 1)"
    by (simp add: store_sent_dev_123 fullkey3_dev_123_5 sql_get_outgoingpart_def empty_smsdb_def)
  have fits: "fits_int 1"
    by (simp add: fits_int_def)
  have settled: "sql_cnt_outgoingpart 1 ?db1 = Some (1, 1)"
    by (simp add: store_sent_dev_123 status_eval)
  note t = smsdb_outgoing_part_status_settles_once[OF nf keys part fits fits settled,
      unfolded Let_def]
  have st: "map status_int (sql_get_all_status 1 ?db1) @ [- 1] = [0, - 1]"
    by (simp add: store_sent_dev_123 status_eval)
  have d2: "?db2 = empty_smsdb\<lparr>outgoing_msg_seq := 1\<rparr>"
    by (simp add: store_sent_dev_123 status_eval)
  from t have run: "smsdb_outgoing_part_status (ok_env 2) ''dev'' ''123'' 5 0 ?db
      = (0, Some (map status_int (sql_get_all_status 1 ?db1) @ [- 1]), ?db2)"
    by (rule conjunct1)
  from t have "\<forall>E' st'. smsdb_outgoing_part_status E' ''dev'' ''123'' 5 st' ?db2 = (- 1, None, ?db2)"
    by blast
  then have later: "smsdb_outgoing_part_status (ok_env 3) ''dev'' ''123'' 5 0 ?db2 = (- 1, None, ?db2)"
    by blast
  show ?thesis
    using nf part settled run[unfolded st d2] later[unfolded d2] by (intro conjI)
qed

text \<open>
  The claim as stated has the function return the destination. It does not: settling the
  only part of a message from device \<open>a/b\<close> to \<open>c\<close> and settling the only part of a
  message from device \<open>a\<close> to \<open>b/c\<close>, which share the part key \<open>a/b/c/5\<close>, give the same
  result and the same \<open>status_all\<close>, while the destinations differ.
\<close>

theorem smsdb_outgoing_part_status_no_destination:
  "smsdb_outgoing_part_status (ok_env 2) ''a'' ''b/c'' 5 0 (store_sent ''a/b'' ''c'')
     = (0, Some [0, - 1], empty_smsdb\<lparr>outgoing_msg_seq := 1\<rparr>)
   \<and> smsdb_outgoing_part_status (ok_env 2) ''a'' ''b/c'' 5 0 (store_sent ''a'' ''b/c'')
     = (0, Some [0, - 1], empty_smsdb\<lparr>outgoing_msg_seq := 1\<rparr>)
   \<and> sql_get_dst 1 (store_sent ''a/b'' ''c'') = Some ''c''
   \<and> sql_get_dst 1 (store_sent ''a'' ''b/c'') = Some ''b/c''"
  by (simp add: store_sent_a_b_c fullkey3_a_b_c_5 status_eval sql_get_dst_def)

section \<open>Properties of the monitor thread\<close>

lemma read_and_dispatch_append:
  "read_and_dispatch M ev = (ev @ fst (read_and_dispatch M []), snd (read_and_dispatch M []))"
  by (simp add: read_and_dispatch_def split: prod.split)

text \<open>
  Claim C10. \<open>cmd_timeout\<close> leaves the device state as it is when no command is at the head
  of the queue or the head command has a nonzero length. When the head command has
  length 0, the timeout response is handled with result 0 and the command carries the
  ignore flag, the state is the one \<open>at_response\<close> left, so \<open>cmd_timeout\<close> itself does not
  set the terminate flag. In every other case (a nonzero result of \<open>at_response\<close>, or a
  command without the ignore flag) the terminate flag is set, and the next monitor
  iteration that takes the lock on a healthy device jumps to \<open>e_restart\<close>.
\<close>

theorem cmd_timeout_cases:
  "(at_queue_head_cmd p = None \<or> (\<exists>c. at_queue_head_cmd p = Some c \<and> cmd_length c \<noteq> 0)
      \<longrightarrow> cmd_timeout ign at_queue_head_cmd at_response p = p)
   \<and> (\<forall>c p'. at_queue_head_cmd p = Some c \<and> cmd_length c = 0 \<and> at_response p = (0, p')
          \<and> cmd_flags c AND ign \<noteq> 0
      \<longrightarrow> cmd_timeout ign at_queue_head_cmd at_response p = p'
          \<and> terminate_monitor (cmd_timeout ign at_queue_head_cmd at_response p)
              = terminate_monitor p')
   \<and> (\<forall>c r p'. at_queue_head_cmd p = Some c \<and> cmd_length c = 0 \<and> at_response p = (r, p')
          \<and> (r \<noteq> 0 \<or> cmd_flags c AND ign = 0)
      \<longrightarrow> cmd_timeout ign at_queue_head_cmd at_response p = p'\<lparr>terminate_monitor := True\<rparr>
          \<and> terminate_monitor (cmd_timeout ign at_queue_head_cmd at_response p)
          \<and> (\<forall>M. \<not> trylock_fails M \<and> dev_status M = 0
                \<longrightarrow> monitor_iteration M (cmd_timeout ign at_queue_head_cmd at_response p)
                    = ([Push Handle_expired_reports_taskproc], E_restart)))"
  by (auto simp: cmd_timeout_def monitor_iteration_def)

theorem cmd_timeout_cases_witness:
  "cmd_timeout 1 (\<lambda>p. None) (\<lambda>p. (0, p)) \<lparr>terminate_monitor = False\<rparr>
     = \<lparr>terminate_monitor = False\<rparr>
   \<and> cmd_timeout 1 (\<lambda>p. Some \<lparr>cmd_length = 4, cmd_flags = 0\<rparr>) (\<lambda>p. (0, p))
       \<lparr>terminate_monitor = False\<rparr> = \<lparr>terminate_monitor = False\<rparr>
   \<and> cmd_timeout 1 (\<lambda>p. Some \<lparr>cmd_length = 0, cmd_flags = 1\<rparr>) (\<lambda>p. (0, p))
       \<lparr>terminate_monitor = False\<rparr> = \<lparr>terminate_monitor = False\<rparr>
   \<and> cmd_timeout 1 (\<lambda>p. Some \<lparr>cmd_length = 0, cmd_flags = 0\<rparr>) (\<lambda>p. (0, p))
       \<lparr>terminate_monitor = False\<rparr> = \<lparr>terminate_monitor = True\<rparr>
   \<and> cmd_timeout 1 (\<lambda>p. Some \<lparr>cmd_length = 0, cmd_flags = 1\<rparr>) (\<lambda>p. (- 1, p))
       \<lparr>terminate_monitor = False\<rparr> = \<lparr>terminate_monitor = True\<rparr>"
proof -
  let ?p = "\<lparr>terminate_monitor = False\<rparr>"
  let ?ok = "\<lambda>p::pvt. (0::int, p)"
  have a: "cmd_timeout 1 (\<lambda>p. None) ?ok ?p = ?p"
    using cmd_timeout_cases[of "\<lambda>p. None" ?p 1 ?ok] by simp
  have b: "cmd_timeout 1 (\<lambda>p. Some \<lparr>cmd_length = 4, cmd_flags = 0\<rparr>) ?ok ?p = ?p"
    using cmd_timeout_cases[of "\<lambda>p. Some \<lparr>cmd_length = 4, cmd_flags = 0\<rparr>" ?p 1 ?ok] by simp
  have c: "cmd_timeout 1 (\<lambda>p. Some \<lparr>cmd_length = 0, cmd_flags = 1\<rparr>) ?ok ?p = ?p"
    using cmd_timeout_cases[of "\<lambda>p. Some \<lparr>cmd_length = 0, cmd_flags = 1\<rparr>" ?p 1 ?ok] by simp
  have d: "cmd_timeout 1 (\<lambda>p. Some \<lparr>cmd_length = 0, cmd_flags = 0\<rparr>) ?ok ?p
      = \<lparr>terminate_monitor = True\<rparr>"
    using cmd_timeout_cases[of "\<lambda>p. Some \<lparr>cmd_length = 0, cmd_flags = 0\<rparr>" ?p 1 ?ok] by simp
  have e: "cmd_timeout 1 (\<lambda>p. Some \<lparr>cmd_length = 0, cmd_flags = 1\<rparr>) (\<lambda>p. (- 1, p)) ?p
      = \<lparr>terminate_monitor = True\<rparr>"
    using cmd_timeout_cases[of "\<lambda>p. Some \<lparr>cmd_length = 0, cmd_flags = 1\<rparr>" ?p 1
        "\<lambda>p::pvt. (- 1::int, p)"] by simp
  show ?thesis by (intro conjI a b c d e)
qed

text \<open>
  Claim C9, as amended. In an iteration that takes the device lock, finds the device
  healthy and the terminate flag clear, and reads a command deadline that has passed
  (\<open>t \<le> 0\<close>) while the serializer holds at least 400 tasks, the monitor pushes the
  expired-reports task, then the restart-monitor task, then the command-timeout task,
  and then waits 500 ms; if no data is ready by then the next iteration starts, otherwise
  the iteration goes on to read.
\<close>

theorem monitor_iteration_elapsed_high_water:
  assumes "\<not> trylock_fails M" and "dev_status M = 0" and "\<not> terminate_monitor p"
    and "queue_timeout M = Some t" and "t \<le> 0" and "tps_size M \<ge> 400"
  shows "fst (monitor_iteration M p) =
      [Push Handle_expired_reports_taskproc, Push Restart_monitor_taskproc,
       Push Cmd_timeout_taskproc, Wait 500]
      @ (if wait_ready M then fst (read_and_dispatch M []) else [])
    \<and> snd (monitor_iteration M p) =
      (if wait_ready M then snd (read_and_dispatch M []) else Next_iteration)"
proof -
  let ?ev = "[Push Handle_expired_reports_taskproc, Push Restart_monitor_taskproc,
      Push Cmd_timeout_taskproc, Wait 500]"
  have it: "monitor_iteration M p =
      (if wait_ready M then read_and_dispatch M ?ev else (?ev, Next_iteration))"
    using assms
    by (simp add: monitor_iteration_def check_taskprocessor_def TASKPROCESSOR_HIGH_WATER_def
        UNHANDLED_COMMAND_TIMEOUT_def)
  show ?thesis
    unfolding it using read_and_dispatch_append[of M ?ev] by simp
qed

theorem monitor_iteration_elapsed_high_water_witness:
  "\<not> trylock_fails (env_elapsed_backlog False) \<and> dev_status (env_elapsed_backlog False) = 0
   \<and> queue_timeout (env_elapsed_backlog False) = Some 0
   \<and> tps_size (env_elapsed_backlog False) = 401
   \<and> monitor_iteration (env_elapsed_backlog False) \<lparr>terminate_monitor = False\<rparr> =
       ([Push Handle_expired_reports_taskproc, Push Restart_monitor_taskproc,
         Push Cmd_timeout_taskproc, Wait 500], Next_iteration)"
  using monitor_iteration_elapsed_high_water[of "env_elapsed_backlog False"
      "\<lparr>terminate_monitor = False\<rparr>" 0]
  by (simp add: env_elapsed_backlog_def prod_eq_iff)

text \<open>
  The claim as stated does not hold: with the lock taken, a deadline that has passed and
  401 tasks in the serializer, an iteration that finds the terminate flag set pushes
  neither task and jumps to \<open>e_restart\<close>.
\<close>

theorem monitor_iteration_terminate_counterexample:
  "\<not> trylock_fails (env_elapsed_backlog False)
   \<and> queue_timeout (env_elapsed_backlog False) = Some 0
   \<and> tps_size (env_elapsed_backlog False) = 401
   \<and> monitor_iteration (env_elapsed_backlog False) \<lparr>terminate_monitor = True\<rparr> =
       ([Push Handle_expired_reports_taskproc], E_restart)"
  by (simp add: env_elapsed_backlog_def monitor_iteration_def)

end
